theory Spec2Isabelle
  imports Main "HOL-Library.AList"
begin

text \<open>
  A model of the Seal GitHub actions: the client of the Seal platform, the reading of the
  CI context, and the two actions (upload artifacts, codebase snapshot) that resolve the
  entity of a pull request, upload files and link them to a field of that entity.

  The repository holds two generations of this code, and both are modelled.
  \<^item> The current client (\<open>findSealEntity\<close>, changesets, upload with checksum,
    \<open>archiveEntities\<close>) is the TypeScript text that follows the compiler options in
    \<open>.github/actions/tsconfig.json\<close>; the earlier client (\<open>findSealEntityId\<close>) is
    \<open>.github/actions/common/src/seal-api.ts\<close>.
  \<^item> The current artifact action is the \<open>run\<close> of \<open>unnamed/part_003\<close>, the earlier
    one is \<open>.github/actions/upload-artifacts/src/index.ts\<close>.
  \<^item> The current snapshot action is the TypeScript text inside \<open>README.md\<close>, the
    earlier one is \<open>unnamed/part_001\<close>.
  \<^item> The CI context (\<open>github-context.ts\<close>) is \<open>unnamed/part_004\<close>.

  Functions that talk to the platform take the platform and the world and return their
  result (an error or a value) with the new world. Data has the shape of the TypeScript
  interfaces; where the code guards against a value outside its interface (a body that
  is not an array, a version that is not a number, a reference without an id), the model
  has that value too.
\<close>

section \<open>Strings and numbers as the actions use them\<close>

text \<open>
  JavaScript strings are modelled as \<open>string\<close> (lists of 8-bit characters), numbers that
  are counts, pull-request numbers, HTTP statuses and timestamps as \<open>nat\<close>.
  \<open>show_nat\<close> is the decimal rendering a template literal gives a non-negative integer.
\<close>

definition digit_char :: "nat \<Rightarrow> char" where
  "digit_char d = ''0123456789'' ! (d mod 10)"

fun show_nat :: "nat \<Rightarrow> string" where
  "show_nat n = (if n < 10 then [digit_char n] else show_nat (n div 10) @ [digit_char (n mod 10)])"

declare show_nat.simps [simp del]

definition isDigit :: "char \<Rightarrow> bool" where
  "isDigit c \<longleftrightarrow> c \<in> set ''0123456789''"

text \<open>\<open>String.prototype.trim\<close>, over the ASCII white space and line terminators.\<close>

definition isWhiteSpace :: "char \<Rightarrow> bool" where
  "isWhiteSpace c \<longleftrightarrow> c \<in> set [CHR 0x09, CHR 0x0A, CHR 0x0B, CHR 0x0C, CHR 0x0D, CHR 0x20]"

definition trim :: "string \<Rightarrow> string" where
  "trim s = rev (dropWhile isWhiteSpace (rev (dropWhile isWhiteSpace s)))"

text \<open>\<open>encodeURIComponent\<close>: every byte outside the unreserved set becomes \<open>%XX\<close>.\<close>

definition unreserved :: "char \<Rightarrow> bool" where
  "unreserved c \<longleftrightarrow>
     c \<in> set ''ABCDEFGHIJKLMNOPQRSTUVWXYZabcdefghijklmnopqrstuvwxyz0123456789-_.!~*()''
     \<or> c = CHR 0x27"

definition hex_digit :: "nat \<Rightarrow> char" where
  "hex_digit d = ''0123456789ABCDEF'' ! (d mod 16)"

definition percent_encode :: "char \<Rightarrow> string" where
  "percent_encode c =
     (let n = (of_char c :: nat) in [CHR ''%'', hex_digit (n div 16), hex_digit (n mod 16)])"

definition encodeURIComponent :: "string \<Rightarrow> string" where
  "encodeURIComponent s = concat (map (\<lambda>c. if unreserved c then [c] else percent_encode c) s)"

text \<open>\<open>path.basename\<close> (POSIX): trailing separators are dropped, then the last segment is taken.\<close>

definition basename :: "string \<Rightarrow> string" where
  "basename p =
     rev (takeWhile (\<lambda>c. c \<noteq> CHR ''/'') (dropWhile (\<lambda>c. c = CHR ''/'') (rev p)))"

text \<open>\<open>xs.join(sep)\<close> on strings.\<close>

fun join :: "string \<Rightarrow> string list \<Rightarrow> string" where
  "join sep [] = []"
| "join sep [x] = x"
| "join sep (x # y # ys) = x @ sep @ join sep (y # ys)"

text \<open>\<open>s.includes(t)\<close>: \<open>t\<close> occurs in \<open>s\<close> as a contiguous run.\<close>

fun str_includes :: "string \<Rightarrow> string \<Rightarrow> bool" where
  "str_includes [] t = (t = [])"
| "str_includes (c # s) t = (take (length t) (c # s) = t \<or> str_includes s t)"

section \<open>Data model of the platform client (seal-api.ts)\<close>

record SealFileReference =
  ref_id :: string
  ref_version :: "int option"

text \<open>
  The \<open>version\<close> property of an entity as the client reads it: absent, \<open>null\<close>, a
  number, or something that is not a number (which \<open>getSealFileVersion\<close> guards against).
\<close>

datatype js_version = VersionUndefined | VersionNull | VersionNumber int | VersionOther

record Template =
  template_id :: "string option"

record SourceInfo =
  template :: "Template option"

record ReferenceField =
  field_value :: "SealFileReference list"

record SealEntityLite =
  entity_id :: string
  title :: string
  version :: js_version
  sourceInfo :: "SourceInfo option"
  entity_fields :: "(string \<times> ReferenceField) list option"

record SealFileUploadResponse =
  upload_id :: string

datatype changeset_status = OPEN | IN_REVIEW | CLOSED

record SealChangeSetResponse =
  changeset_id :: string
  index :: string
  changeset_name :: string
  changeset_status :: changeset_status
  description :: "string option"
  entityRefs :: "SealFileReference list"

section \<open>The HTTP transport\<close>

text \<open>
  A request is the axios configuration the client builds. A response body is read by the
  client through one of its declared shapes; \<open>OtherData\<close> is any other body. \<open>data_json\<close>
  stands for what \<open>JSON.stringify(response.data)\<close> prints in diagnostics.
\<close>

datatype http_method = GET | POST | PATCH

datatype request_data =
    NoRequestData
  | AddToChangeSetBody string
  | FileStream string
  | FieldPatch "SealFileReference list"

record request =
  req_method :: http_method
  url :: string
  headers :: "(string \<times> string) list"
  params :: "(string \<times> string) list"
  req_data :: request_data

datatype response_data =
    EntityArray "SealEntityLite list"
  | EntityObject SealEntityLite
  | ChangeSetObject SealChangeSetResponse
  | UploadObject SealFileUploadResponse
  | OtherData

record response =
  status :: nat
  statusText :: string
  resp_data :: response_data
  data_json :: string

text \<open>
  The platform is a black box: it answers a request, given the requests made before it,
  with a response, with a transport failure, or the call fails with an error that is not
  an axios error.
\<close>

datatype reply = Reply response | TransportFailure string | OtherFailure string

type_synonym platform = "request list \<Rightarrow> request \<Rightarrow> reply"

text \<open>
  The effects the model tracks: the requests sent, in order, and the lines the resolver
  writes with \<open>core.error\<close>. The other log output of the actions is not modelled.
\<close>

record world =
  calls :: "request list"
  error_log :: "string list"

definition core_error :: "string \<Rightarrow> world \<Rightarrow> world" where
  "core_error line w = w\<lparr>error_log := error_log w @ [line]\<rparr>"

datatype axios_error = AxiosError string "response option" | PlainError string

definition validateStatus :: "nat \<Rightarrow> bool" where
  "validateStatus st \<longleftrightarrow> st \<ge> 200 \<and> st < 500"

definition axios :: "platform \<Rightarrow> request \<Rightarrow> world \<Rightarrow> (axios_error + response) \<times> world" where
  "axios P config w =
     (let w' = w\<lparr>calls := calls w @ [config]\<rparr> in
      case P (calls w) config of
        Reply r \<Rightarrow>
          if validateStatus (status r) then (Inr r, w')
          else (Inl (AxiosError (''Request failed with status code '' @ show_nat (status r)) (Some r)), w')
      | TransportFailure m \<Rightarrow> (Inl (AxiosError m None), w')
      | OtherFailure m \<Rightarrow> (Inl (PlainError m), w'))"

section \<open>Errors\<close>

datatype error =
    TokenRequired
  | TemplateIdRequired
  | SearchFailed string
  | SearchStatus nat string
  | InvalidSearchFormat
  | NoEntityFound string string
  | MultipleEntitiesFound string string
  | UniqueEntityMissing
  | UniqueEntityIdMissing "string option"
  | ApiError string string string
  | Rethrown string
  | MissingChangeSetIndex string
  | HashReadError string string
  | UploadFailed string string string
  | UploadFailedNoChecksum string string
  | UploadStatus nat string
  | MissingFileId
  | LinkFailed string string
  | LinkStatus nat string
  | ProcessingFailed nat
  | UploadsFailed nat
  | InputRequired string
  | UnsupportedArchiveType string
  | ExternalError string

definition quoted :: "string \<Rightarrow> string" where
  "quoted s = [CHR 0x22] @ s @ [CHR 0x22]"

fun message :: "error \<Rightarrow> string" where
  "message TokenRequired = ''Seal API token is required.''"
| "message TemplateIdRequired = ''Seal Template ID is required for filtering search results.''"
| "message (SearchFailed m) = ''Failed to search for Seal entity: '' @ m"
| "message (SearchStatus st body) =
     ''Seal API search failed with status '' @ show_nat st @ '': '' @ body"
| "message InvalidSearchFormat = ''Invalid response format from Seal API search.''"
| "message (NoEntityFound searchTerm templateId) =
     ''No Seal entity found matching title '' @ quoted searchTerm @ '' and template ID ''
       @ quoted templateId @ ''.''"
| "message (MultipleEntitiesFound searchTerm templateId) =
     ''Found multiple entities matching title '' @ quoted searchTerm @ '' and template ID ''
       @ quoted templateId @ ''. Cannot link artifact/snapshot.''"
| "message UniqueEntityMissing = ''Found unique Seal entity: undefined''"
| "message (UniqueEntityIdMissing v) =
     ''Found unique Seal entity ID: '' @ (case v of None \<Rightarrow> ''undefined'' | Some s \<Rightarrow> s)"
| "message (ApiError functionName st body) =
     ''['' @ functionName @ ''] API Error: '' @ st @ '' - '' @ body"
| "message (Rethrown m) = m"
| "message (MissingChangeSetIndex functionName) =
     ''['' @ functionName @ ''] Missing or invalid changeset index in API response.''"
| "message (HashReadError filePath m) =
     ''Error reading file '' @ quoted filePath @ '' for CRC32C calculation: '' @ m"
| "message (UploadFailed sealFilename crc m) =
     ''Failed to upload file '' @ quoted sealFilename @ '' (CRC32C: '' @ crc @ ''): '' @ m"
| "message (UploadFailedNoChecksum sealFilename m) =
     ''Failed to upload file '' @ quoted sealFilename @ '': '' @ m"
| "message (UploadStatus st body) =
     ''Seal API file upload failed with status '' @ show_nat st @ '': '' @ body"
| "message MissingFileId = ''Missing file ID in Seal API response after upload.''"
| "message (LinkFailed fieldName m) =
     ''Failed to link files to entity field '' @ quoted fieldName @ '': '' @ m"
| "message (LinkStatus st body) =
     ''Seal API linking failed with status '' @ show_nat st @ '': '' @ body
       @ ''. Files were uploaded but not linked.''"
| "message (ProcessingFailed n) = show_nat n @ '' artifact processing step(s) failed.''"
| "message (UploadsFailed n) = show_nat n @ '' artifact upload(s) failed.''"
| "message (InputRequired name) = ''Input required and not supplied: '' @ name"
| "message (UnsupportedArchiveType t) =
     ''Unsupported archive_type: '' @ t @ ''. Must be 'zip' or 'tar'.''"
| "message (ExternalError m) = m"

section \<open>The platform client (seal-api.ts)\<close>

definition normalizeApiUrl :: "string \<Rightarrow> string" where
  "normalizeApiUrl u = (if u \<noteq> [] \<and> last u = CHR ''/'' then u else u @ ''/'')"

text \<open>
  \<open>createApiConfig\<close> throws on an empty token; otherwise it gives the headers of the
  request (the extra headers override or extend the base ones, as the object spread does).
\<close>

definition apiHeaders :: "string \<Rightarrow> (string \<times> string) list \<Rightarrow> (string \<times> string) list" where
  "apiHeaders apiToken extraHeaders =
     fold (\<lambda>(k, v). AList.update k v) extraHeaders
       [(''Authorization'', ''Bearer '' @ trim apiToken),
        (''Content-Type'', ''application/json''),
        (''Accept'', ''application/json'')]"

definition createApiConfig :: "string \<Rightarrow> (string \<times> string) list \<Rightarrow> error + (string \<times> string) list" where
  "createApiConfig apiToken extraHeaders =
     (if apiToken = [] then Inl TokenRequired else Inr (apiHeaders apiToken extraHeaders))"

subsection \<open>Entity search and the resolver\<close>

text \<open>\<open>entity?.sourceInfo?.template?.id\<close>\<close>

definition entityTemplateId :: "SealEntityLite \<Rightarrow> string option" where
  "entityTemplateId entity =
     (case sourceInfo entity of
        None \<Rightarrow> None
      | Some si \<Rightarrow> (case template si of None \<Rightarrow> None | Some t \<Rightarrow> template_id t))"

definition matchingEntities :: "string \<Rightarrow> SealEntityLite list \<Rightarrow> SealEntityLite list" where
  "matchingEntities templateId searchResults =
     filter (\<lambda>entity. entityTemplateId entity = Some templateId) searchResults"

definition searchConfig :: "string \<Rightarrow> (string \<times> string) list \<Rightarrow> string \<Rightarrow> request" where
  "searchConfig apiUrl hs searchTerm =
     \<lparr>req_method = GET, url = normalizeApiUrl apiUrl @ ''entities/search'', headers = hs,
      params = [(''titleContains'', searchTerm)], req_data = NoRequestData\<rparr>"

text \<open>
  \<open>findSealEntity\<close> (current client) and \<open>findSealEntityId\<close> (earlier client) have the
  same text up to the check for several matches; \<open>searchEntities\<close> is that common part,
  with the function's name as the log prefix.
\<close>

definition searchEntities ::
  "string \<Rightarrow> platform \<Rightarrow> string \<Rightarrow> string \<Rightarrow> nat \<Rightarrow> string \<Rightarrow> world
     \<Rightarrow> (error + SealEntityLite list) \<times> world" where
  "searchEntities functionName P apiUrl apiToken prNumber templateId w =
     (let searchTerm = ''#'' @ show_nat prNumber; tag = ''['' @ functionName @ ''] '' in
      if templateId = [] then (Inl TemplateIdRequired, w)
      else
        case createApiConfig apiToken [] of
          Inl e \<Rightarrow> (Inl e, w)
        | Inr hs \<Rightarrow>
            (case axios P (searchConfig apiUrl hs searchTerm) w of
               (Inl (AxiosError m r), w1) \<Rightarrow>
                 (Inl (SearchFailed (''Axios error: '' @ m)),
                  core_error (tag @ ''Response Data: ''
                      @ (case r of None \<Rightarrow> ''undefined'' | Some rr \<Rightarrow> data_json rr))
                    (core_error (tag @ ''API request failed: '' @ m) w1))
             | (Inl (PlainError m), w1) \<Rightarrow>
                 (Inl (SearchFailed m),
                  core_error (tag @ ''Non-axios error during request: Error: '' @ m) w1)
             | (Inr response, w1) \<Rightarrow>
                 if status response \<noteq> 200 then
                   (Inl (SearchStatus (status response) (data_json response)),
                    core_error (tag @ ''API search error body: '' @ data_json response)
                      (core_error (tag @ ''API search error: '' @ show_nat (status response)
                          @ '' '' @ statusText response) w1))
                 else
                   (case resp_data response of
                      EntityArray searchResults \<Rightarrow>
                        (let matching = matchingEntities templateId searchResults in
                         if length matching = 0 then
                           (Inl (NoEntityFound searchTerm templateId),
                            core_error (tag @ ''No entity found matching title '' @ quoted searchTerm
                                @ '' and template ID '' @ quoted templateId @ ''.'') w1)
                         else if length matching > 1 then
                           (Inl (MultipleEntitiesFound searchTerm templateId),
                            core_error (tag @ ''Found multiple entities (''
                                @ join '', '' (map entity_id matching)
                                @ '') matching criteria. Cannot proceed.'') w1)
                         else (Inr matching, w1))
                    | _ \<Rightarrow>
                        (Inl InvalidSearchFormat,
                         core_error (tag @ ''API search response was not an array.'') w1))))"

definition findSealEntity ::
  "platform \<Rightarrow> string \<Rightarrow> string \<Rightarrow> nat \<Rightarrow> string \<Rightarrow> world \<Rightarrow> (error + SealEntityLite) \<times> world" where
  "findSealEntity P apiUrl apiToken prNumber templateId w =
     (case searchEntities ''findSealEntity'' P apiUrl apiToken prNumber templateId w of
        (Inl e, w1) \<Rightarrow> (Inl e, w1)
      | (Inr matching, w1) \<Rightarrow>
          (case matching of
             [] \<Rightarrow>
               (Inl UniqueEntityMissing,
                core_error ''[findSealEntity] Found unique Seal entity: undefined'' w1)
           | entity # _ \<Rightarrow> (Inr entity, w1)))"

definition findSealEntityId ::
  "platform \<Rightarrow> string \<Rightarrow> string \<Rightarrow> nat \<Rightarrow> string \<Rightarrow> world \<Rightarrow> (error + string) \<times> world" where
  "findSealEntityId P apiUrl apiToken prNumber templateId w =
     (case searchEntities ''findSealEntityId'' P apiUrl apiToken prNumber templateId w of
        (Inl e, w1) \<Rightarrow> (Inl e, w1)
      | (Inr matching, w1) \<Rightarrow>
          (case matching of
             [] \<Rightarrow>
               (Inl (UniqueEntityIdMissing None),
                core_error ''[findSealEntityId] Found unique Seal entity ID: undefined'' w1)
           | entity # _ \<Rightarrow>
               if entity_id entity = [] then
                 (Inl (UniqueEntityIdMissing (Some [])),
                  core_error ''[findSealEntityId] Found unique Seal entity ID: '' w1)
               else (Inr (entity_id entity), w1)))"

subsection \<open>Changesets\<close>

definition changeSetConfig :: "string \<Rightarrow> (string \<times> string) list \<Rightarrow> string \<Rightarrow> request" where
  "changeSetConfig apiUrl hs entityId =
     \<lparr>req_method = GET, url = normalizeApiUrl apiUrl @ ''entities/'' @ entityId @ ''/change-set'',
      headers = hs, params = [], req_data = NoRequestData\<rparr>"

text \<open>
  The error both changeset functions raise from their \<open>catch\<close> block: an axios error is
  turned into an API error with the status and body of its response (or the stand-ins
  when it has none); any other error is thrown again as it is.
\<close>

definition apiErrorOf :: "string \<Rightarrow> axios_error \<Rightarrow> error" where
  "apiErrorOf functionName err =
     (case err of
        AxiosError m r \<Rightarrow>
          ApiError functionName
            (case r of None \<Rightarrow> ''Unknown Status'' | Some rr \<Rightarrow> show_nat (status rr))
            (case r of None \<Rightarrow> quoted ''No response data'' | Some rr \<Rightarrow> data_json rr)
      | PlainError m \<Rightarrow> Rethrown m)"

text \<open>\<open>response.data?.index\<close>\<close>

definition responseIndex :: "response_data \<Rightarrow> string option" where
  "responseIndex d = (case d of ChangeSetObject c \<Rightarrow> Some (index c) | _ \<Rightarrow> None)"

definition getSealEntityChangeSetIndex ::
  "platform \<Rightarrow> string \<Rightarrow> string \<Rightarrow> string \<Rightarrow> world \<Rightarrow> (error + string) \<times> world" where
  "getSealEntityChangeSetIndex P apiUrl apiToken entityId w =
     (case createApiConfig apiToken [] of
        Inl e \<Rightarrow> (Inl e, w)
      | Inr hs \<Rightarrow>
          (case axios P (changeSetConfig apiUrl hs entityId) w of
             (Inl err, w1) \<Rightarrow> (Inl (apiErrorOf ''getSealEntityChangeSetIndex'' err), w1)
           | (Inr response, w1) \<Rightarrow>
               if status response \<noteq> 200 then
                 (Inl (ApiError ''getSealEntityChangeSetIndex'' (show_nat (status response))
                         (data_json response)), w1)
               else
                 (case responseIndex (resp_data response) of
                    None \<Rightarrow> (Inl (MissingChangeSetIndex ''getSealEntityChangeSetIndex''), w1)
                  | Some changeSetIndex \<Rightarrow>
                      if changeSetIndex = [] then
                        (Inl (MissingChangeSetIndex ''getSealEntityChangeSetIndex''), w1)
                      else (Inr changeSetIndex, w1))))"

definition addToChangeSetConfig ::
  "string \<Rightarrow> (string \<times> string) list \<Rightarrow> string \<Rightarrow> string \<Rightarrow> request" where
  "addToChangeSetConfig apiUrl hs entityIdToAdd changeSetIndex =
     \<lparr>req_method = POST,
      url = normalizeApiUrl apiUrl @ ''entities/'' @ entityIdToAdd @ ''/add-to-change-set'',
      headers = hs, params = [], req_data = AddToChangeSetBody changeSetIndex\<rparr>"

definition addEntityToChangeSet ::
  "platform \<Rightarrow> string \<Rightarrow> string \<Rightarrow> string \<Rightarrow> string \<Rightarrow> world \<Rightarrow> (error + unit) \<times> world" where
  "addEntityToChangeSet P apiUrl apiToken entityIdToAdd changeSetIndex w =
     (case createApiConfig apiToken [] of
        Inl e \<Rightarrow> (Inl e, w)
      | Inr hs \<Rightarrow>
          (case axios P (addToChangeSetConfig apiUrl hs entityIdToAdd changeSetIndex) w of
             (Inl err, w1) \<Rightarrow> (Inl (apiErrorOf ''addEntityToChangeSet'' err), w1)
           | (Inr response, w1) \<Rightarrow>
               if status response \<noteq> 200 then
                 (Inl (ApiError ''addEntityToChangeSet'' (show_nat (status response))
                         (data_json response)), w1)
               else (Inr (), w1)))"

subsection \<open>File upload\<close>

text \<open>
  The local file system as the upload reads it: a path is unreadable (with the error's
  message) or has a size and a CRC32C checksum, which the checksum library computes.
\<close>

record file_stat =
  file_size :: nat
  crc32c :: nat

type_synonym file_system = "string \<Rightarrow> string + file_stat"

definition uploadConfig ::
  "string \<Rightarrow> (string \<times> string) list \<Rightarrow> string \<Rightarrow> string \<Rightarrow> string \<Rightarrow> string \<Rightarrow> request" where
  "uploadConfig apiUrl hs filePath sealFilename fileTypeTitle crc32cHash =
     \<lparr>req_method = POST, url = normalizeApiUrl apiUrl @ ''files'', headers = hs,
      params = [(''filename'', sealFilename), (''typeTitle'', fileTypeTitle),
                (''crc32cHash'', crc32cHash)],
      req_data = FileStream filePath\<rparr>"

text \<open>\<open>response.data?.id\<close>\<close>

definition responseId :: "response_data \<Rightarrow> string option" where
  "responseId d =
     (case d of
        UploadObject u \<Rightarrow> Some (upload_id u)
      | EntityObject e \<Rightarrow> Some (entity_id e)
      | ChangeSetObject c \<Rightarrow> Some (changeset_id c)
      | _ \<Rightarrow> None)"

definition uploadSealFile ::
  "file_system \<Rightarrow> platform \<Rightarrow> string \<Rightarrow> string \<Rightarrow> string \<Rightarrow> string \<Rightarrow> string \<Rightarrow> world
     \<Rightarrow> (error + string) \<times> world" where
  "uploadSealFile fs P apiUrl apiToken filePath sealFilename fileTypeTitle w =
     (case fs filePath of
        Inl m \<Rightarrow> (Inl (HashReadError filePath m), w)
      | Inr st \<Rightarrow>
          (let crc32cHash = show_nat (crc32c st) in
           case createApiConfig apiToken
                  [(''Content-Type'', ''application/octet-stream''),
                   (''Content-Length'', show_nat (file_size st))] of
             Inl e \<Rightarrow> (Inl e, w)
           | Inr hs \<Rightarrow>
               (case axios P (uploadConfig apiUrl hs filePath sealFilename fileTypeTitle crc32cHash) w of
                  (Inl (AxiosError m r), w1) \<Rightarrow>
                    (Inl (UploadFailed sealFilename crc32cHash (''Axios error: '' @ m)), w1)
                | (Inl (PlainError m), w1) \<Rightarrow>
                    (Inl (UploadFailed sealFilename crc32cHash m), w1)
                | (Inr response, w1) \<Rightarrow>
                    if status response \<noteq> 200 \<and> status response \<noteq> 201 then
                      (Inl (UploadStatus (status response) (data_json response)), w1)
                    else
                      (case responseId (resp_data response) of
                         None \<Rightarrow> (Inl MissingFileId, w1)
                       | Some fileId \<Rightarrow>
                           if fileId = [] then (Inl MissingFileId, w1) else (Inr fileId, w1)))))"

subsection \<open>Version fetch\<close>

definition versionConfig :: "string \<Rightarrow> (string \<times> string) list \<Rightarrow> string \<Rightarrow> request" where
  "versionConfig apiUrl hs fileId =
     \<lparr>req_method = GET, url = normalizeApiUrl apiUrl @ ''entities/'' @ fileId, headers = hs,
      params = [], req_data = NoRequestData\<rparr>"

text \<open>\<open>response.data?.version\<close>\<close>

definition responseVersion :: "response_data \<Rightarrow> js_version" where
  "responseVersion d = (case d of EntityObject e \<Rightarrow> version e | _ \<Rightarrow> VersionUndefined)"

definition getSealFileVersion ::
  "platform \<Rightarrow> string \<Rightarrow> string \<Rightarrow> string \<Rightarrow> world \<Rightarrow> (error + int option) \<times> world" where
  "getSealFileVersion P apiUrl apiToken fileId w =
     (case createApiConfig apiToken [] of
        Inl e \<Rightarrow> (Inl e, w)
      | Inr hs \<Rightarrow>
          (case axios P (versionConfig apiUrl hs fileId) w of
             (Inl err, w1) \<Rightarrow> (Inr None, w1)
           | (Inr response, w1) \<Rightarrow>
               if status response \<noteq> 200 then (Inr None, w1)
               else
                 (case responseVersion (resp_data response) of
                    VersionUndefined \<Rightarrow> (Inr None, w1)
                  | VersionNull \<Rightarrow> (Inr None, w1)
                  | VersionNumber v \<Rightarrow> (Inr (Some v), w1)
                  | VersionOther \<Rightarrow> (Inr None, w1))))"

subsection \<open>Field patch\<close>

definition linkConfig ::
  "string \<Rightarrow> (string \<times> string) list \<Rightarrow> string \<Rightarrow> string \<Rightarrow> SealFileReference list \<Rightarrow> request" where
  "linkConfig apiUrl hs entityId fieldName fileReferences =
     \<lparr>req_method = PATCH,
      url = normalizeApiUrl apiUrl @ ''entities/'' @ entityId @ ''/fields/''
              @ encodeURIComponent fieldName,
      headers = hs, params = [], req_data = FieldPatch fileReferences\<rparr>"

definition linkFilesToEntityField ::
  "platform \<Rightarrow> string \<Rightarrow> string \<Rightarrow> string \<Rightarrow> string \<Rightarrow> SealFileReference list \<Rightarrow> world
     \<Rightarrow> (error + unit) \<times> world" where
  "linkFilesToEntityField P apiUrl apiToken entityId fieldName fileReferences w =
     (if length fileReferences = 0 then (Inr (), w)
      else
        case createApiConfig apiToken [] of
          Inl e \<Rightarrow> (Inl e, w)
        | Inr hs \<Rightarrow>
            (case axios P (linkConfig apiUrl hs entityId fieldName fileReferences) w of
               (Inl (AxiosError m r), w1) \<Rightarrow> (Inl (LinkFailed fieldName (''Axios error: '' @ m)), w1)
             | (Inl (PlainError m), w1) \<Rightarrow> (Inl (LinkFailed fieldName m), w1)
             | (Inr response, w1) \<Rightarrow>
                 if status response \<noteq> 200 then
                   (Inl (LinkStatus (status response) (data_json response)), w1)
                 else (Inr (), w1)))"

subsection \<open>Archiving earlier references\<close>

text \<open>
  Each reference gets its own promise: it is fulfilled with an outcome (skipped for a
  reference without an id, success, or failed with a reason), or rejected when the
  configuration cannot be built. The requests leave in the order of the list;
  \<open>allSettled\<close> waits for every promise and keeps each result, fulfilled or rejected.
\<close>

datatype archive_outcome =
    ArchiveSkipped
  | ArchiveSuccess string
  | ArchiveFailed string string

definition archiveConfig :: "string \<Rightarrow> (string \<times> string) list \<Rightarrow> string \<Rightarrow> request" where
  "archiveConfig baseUrl hs entityId =
     \<lparr>req_method = POST, url = baseUrl @ ''entities/'' @ entityId @ ''/archive'', headers = hs,
      params = [], req_data = NoRequestData\<rparr>"

definition archivePromise ::
  "platform \<Rightarrow> string \<Rightarrow> string \<Rightarrow> SealFileReference \<Rightarrow> world \<Rightarrow> (error + archive_outcome) \<times> world" where
  "archivePromise P baseUrl apiToken ref w =
     (if ref_id ref = [] then (Inr ArchiveSkipped, w)
      else
        let entityId = ref_id ref in
        case createApiConfig apiToken [] of
          Inl e \<Rightarrow> (Inl e, w)
        | Inr hs \<Rightarrow>
            (case axios P (archiveConfig baseUrl hs entityId) w of
               (Inr response, w1) \<Rightarrow>
                 if status response = 200 then (Inr (ArchiveSuccess entityId), w1)
                 else (Inr (ArchiveFailed entityId (''Status '' @ show_nat (status response))), w1)
             | (Inl (AxiosError m r), w1) \<Rightarrow> (Inr (ArchiveFailed entityId m), w1)
             | (Inl (PlainError m), w1) \<Rightarrow> (Inr (ArchiveFailed entityId m), w1)))"

fun allSettled :: "('a \<Rightarrow> world \<Rightarrow> 'b \<times> world) \<Rightarrow> 'a list \<Rightarrow> world \<Rightarrow> 'b list \<times> world" where
  "allSettled f [] w = ([], w)"
| "allSettled f (x # xs) w =
     (case f x w of (r, w1) \<Rightarrow> (case allSettled f xs w1 of (rs, w2) \<Rightarrow> (r # rs, w2)))"

definition archivePromises ::
  "platform \<Rightarrow> string \<Rightarrow> string \<Rightarrow> SealFileReference list \<Rightarrow> world
     \<Rightarrow> (error + archive_outcome) list \<times> world" where
  "archivePromises P apiUrl apiToken fileRefs w =
     allSettled (archivePromise P (normalizeApiUrl apiUrl) apiToken) fileRefs w"

definition archiveEntities ::
  "platform \<Rightarrow> string \<Rightarrow> string \<Rightarrow> SealFileReference list option \<Rightarrow> world \<Rightarrow> (error + unit) \<times> world" where
  "archiveEntities P apiUrl apiToken fileRefs w =
     (case fileRefs of
        None \<Rightarrow> (Inr (), w)
      | Some refs \<Rightarrow>
          if length refs = 0 then (Inr (), w)
          else (case archivePromises P apiUrl apiToken refs w of (settled, w1) \<Rightarrow> (Inr (), w1)))"

subsection \<open>The earlier client's upload (no checksum)\<close>

text \<open>
  The repository holds two generations of the client and of each action. The earlier
  client (\<open>findSealEntityId\<close>, an upload without checksum, no changeset and no archiving)
  is used by the earlier actions, named here with the suffix \<open>_v1\<close>; its version fetch
  and field patch have the same text as the current ones.
\<close>

definition uploadConfig_v1 ::
  "string \<Rightarrow> (string \<times> string) list \<Rightarrow> string \<Rightarrow> string \<Rightarrow> string \<Rightarrow> request" where
  "uploadConfig_v1 apiUrl hs filePath sealFilename fileTypeTitle =
     \<lparr>req_method = POST, url = normalizeApiUrl apiUrl @ ''files'', headers = hs,
      params = [(''filename'', sealFilename), (''typeTitle'', fileTypeTitle)],
      req_data = FileStream filePath\<rparr>"

definition uploadSealFile_v1 ::
  "file_system \<Rightarrow> platform \<Rightarrow> string \<Rightarrow> string \<Rightarrow> string \<Rightarrow> string \<Rightarrow> string \<Rightarrow> world
     \<Rightarrow> (error + string) \<times> world" where
  "uploadSealFile_v1 fs P apiUrl apiToken filePath sealFilename fileTypeTitle w =
     (case fs filePath of
        Inl m \<Rightarrow> (Inl (ExternalError m), w)
      | Inr st \<Rightarrow>
          (case createApiConfig apiToken
                  [(''Content-Type'', ''application/octet-stream''),
                   (''Content-Length'', show_nat (file_size st))] of
             Inl e \<Rightarrow> (Inl e, w)
           | Inr hs \<Rightarrow>
               (case axios P (uploadConfig_v1 apiUrl hs filePath sealFilename fileTypeTitle) w of
                  (Inl (AxiosError m r), w1) \<Rightarrow>
                    (Inl (UploadFailedNoChecksum sealFilename (''Axios error: '' @ m)), w1)
                | (Inl (PlainError m), w1) \<Rightarrow>
                    (Inl (UploadFailedNoChecksum sealFilename m), w1)
                | (Inr response, w1) \<Rightarrow>
                    if status response \<noteq> 200 \<and> status response \<noteq> 201 then
                      (Inl (UploadStatus (status response) (data_json response)), w1)
                    else
                      (case responseId (resp_data response) of
                         None \<Rightarrow> (Inl MissingFileId, w1)
                       | Some fileId \<Rightarrow>
                           if fileId = [] then (Inl MissingFileId, w1) else (Inr fileId, w1)))))"

section \<open>The CI context (github-context.ts)\<close>

record CommonInputs =
  sealApiToken :: string
  sealApiBaseUrl :: string
  sealTemplateId :: string
  sealFileTypeTitle :: string

datatype archive_type = Zip | Tar

record CodebaseSnapshotInputs = CommonInputs +
  snapshotFieldName :: string
  excludePatterns :: string
  archiveType :: archive_type

record UploadArtifactsInputs = CommonInputs +
  fieldName :: string
  artifactPatterns :: string

record PullRequestContext =
  repoOwner :: string
  repoName :: string
  prNumber :: nat
  prTitle :: string
  headRef :: string
  baseRef :: string
  commitSha :: string
  workspace :: string

text \<open>
  What an invocation finds around it: the action's input variables, the event and its
  pull-request payload, the repository and commit (which the runner always provides),
  the workspace variable, the clock, the local files, file discovery by glob, and (for the
  snapshot action) the creation of the temporary directory and of the archive. The last
  three are external collaborators; they answer with a result or with the error they
  throw.
\<close>

record pull_request_payload =
  pr_number :: nat
  pr_title :: "string option"
  pr_head_ref :: "string option"
  pr_base_ref :: "string option"

record environment =
  input_vars :: "string \<Rightarrow> string option"
  eventName :: string
  payload_pull_request :: "pull_request_payload option"
  repo_owner :: string
  repo_name :: string
  sha :: string
  GITHUB_WORKSPACE :: "string option"
  clock :: nat
  file_system :: file_system
  glob :: "string \<Rightarrow> string option \<Rightarrow> error + string list"
  mkdtemp :: "error + string"
  archiver :: "string \<Rightarrow> error option"

text \<open>
  \<open>core.getInput\<close> of the actions toolkit: the variable's value or the empty string; a
  required input that is empty throws; the value is returned trimmed.
\<close>

definition getInput :: "environment \<Rightarrow> string \<Rightarrow> bool \<Rightarrow> error + string" where
  "getInput E name required =
     (let val = (case input_vars E name of None \<Rightarrow> [] | Some v \<Rightarrow> v) in
      if required \<and> val = [] then Inl (InputRequired name) else Inr (trim val))"

text \<open>\<open>x || d\<close> on strings\<close>

definition orDefault :: "string \<Rightarrow> string \<Rightarrow> string" where
  "orDefault x d = (if x = [] then d else x)"

definition isPullRequestEvent :: "environment \<Rightarrow> bool" where
  "isPullRequestEvent E \<longleftrightarrow>
     eventName E = ''pull_request'' \<or> eventName E = ''pull_request_target''"

text \<open>Sequencing of steps that may throw: the first error ends the sequence.\<close>

definition bindE :: "error + 'a \<Rightarrow> ('a \<Rightarrow> error + 'b) \<Rightarrow> error + 'b" where
  "bindE m f = (case m of Inl e \<Rightarrow> Inl e | Inr x \<Rightarrow> f x)"

definition getCodebaseSnapshotInputs :: "environment \<Rightarrow> error + CodebaseSnapshotInputs" where
  "getCodebaseSnapshotInputs E =
     bindE (getInput E ''seal_api_token'' True) (\<lambda>tok.
     bindE (getInput E ''seal_api_base_url'' True) (\<lambda>base.
     bindE (getInput E ''seal_template_id'' True) (\<lambda>tid.
     bindE (getInput E ''seal_snapshot_field_name'' False) (\<lambda>fld.
     bindE (getInput E ''seal_file_type_title'' False) (\<lambda>ftt.
     bindE (getInput E ''exclude_patterns'' False) (\<lambda>excl.
     bindE (getInput E ''archive_type'' False) (\<lambda>arch.
       (let archiveType = orDefault arch ''zip'' in
        if archiveType \<noteq> ''zip'' \<and> archiveType \<noteq> ''tar'' then
          Inl (UnsupportedArchiveType archiveType)
        else
          Inr \<lparr>sealApiToken = tok, sealApiBaseUrl = base, sealTemplateId = tid,
               sealFileTypeTitle = orDefault ftt ''GitHub Artifacts'',
               snapshotFieldName = orDefault fld ''Code Snapshot'',
               excludePatterns = excl,
               archiveType = (if archiveType = ''zip'' then Zip else Tar)\<rparr>))))))))"

definition getUploadArtifactsInputs :: "environment \<Rightarrow> error + UploadArtifactsInputs" where
  "getUploadArtifactsInputs E =
     bindE (getInput E ''seal_api_token'' True) (\<lambda>tok.
     bindE (getInput E ''seal_api_base_url'' True) (\<lambda>base.
     bindE (getInput E ''seal_template_id'' True) (\<lambda>tid.
     bindE (getInput E ''seal_field_name'' False) (\<lambda>fld.
     bindE (getInput E ''seal_file_type_title'' False) (\<lambda>ftt.
     bindE (getInput E ''artifact_patterns'' True) (\<lambda>pats.
       Inr \<lparr>sealApiToken = tok, sealApiBaseUrl = base, sealTemplateId = tid,
            sealFileTypeTitle = orDefault ftt ''GitHub-Artifacts'',
            fieldName = orDefault fld ''Release Artifact(s)'',
            artifactPatterns = pats\<rparr>))))))"

text \<open>\<open>!x\<close> on an optional string: absent or empty.\<close>

definition falsy :: "string option \<Rightarrow> bool" where
  "falsy x \<longleftrightarrow> x = None \<or> x = Some []"

definition getPullRequestContext :: "environment \<Rightarrow> PullRequestContext option" where
  "getPullRequestContext E =
     (if \<not> isPullRequestEvent E then None
      else
        case payload_pull_request E of
          None \<Rightarrow> None
        | Some prPayload \<Rightarrow>
            if pr_number prPayload = 0 \<or> falsy (pr_head_ref prPayload)
               \<or> falsy (pr_base_ref prPayload) \<or> falsy (GITHUB_WORKSPACE E)
            then None
            else
              Some \<lparr>repoOwner = repo_owner E, repoName = repo_name E,
                    prNumber = pr_number prPayload,
                    prTitle = (case pr_title prPayload of None \<Rightarrow> [] | Some t \<Rightarrow> t),
                    headRef = (case pr_head_ref prPayload of None \<Rightarrow> [] | Some r \<Rightarrow> r),
                    baseRef = (case pr_base_ref prPayload of None \<Rightarrow> [] | Some r \<Rightarrow> r),
                    commitSha = sha E,
                    workspace = (case GITHUB_WORKSPACE E of None \<Rightarrow> [] | Some d \<Rightarrow> d)\<rparr>)"

section \<open>The actions\<close>

text \<open>
  How a run of an action ends: it returns, it reports failure with \<open>core.setFailed\<close>
  (from the \<open>catch\<close> of its \<open>try\<close> block), or an error thrown outside the \<open>try\<close>
  block leaves \<open>run\<close>.
\<close>

datatype outcome = Returned | SetFailed string | Rejected error

definition bindS ::
  "(world \<Rightarrow> (error + 'a) \<times> world) \<Rightarrow> ('a \<Rightarrow> world \<Rightarrow> (error + 'b) \<times> world)
     \<Rightarrow> world \<Rightarrow> (error + 'b) \<times> world" where
  "bindS m f w = (case m w of (Inl e, w1) \<Rightarrow> (Inl e, w1) | (Inr x, w1) \<Rightarrow> f x w1)"

text \<open>\<open>s.split(/\s+/).filter(p => p.length > 0)\<close>, over the ASCII white space.\<close>

fun splitWords :: "string \<Rightarrow> string \<Rightarrow> string list" where
  "splitWords cur [] = (if cur = [] then [] else [cur])"
| "splitWords cur (c # cs) =
     (if isWhiteSpace c then (if cur = [] then splitWords [] cs else cur # splitWords [] cs)
      else splitWords (cur @ [c]) cs)"

text \<open>\<open>entity.fields?.[fieldName]?.value\<close>\<close>

definition existingRefs :: "SealEntityLite \<Rightarrow> string \<Rightarrow> SealFileReference list option" where
  "existingRefs entity name =
     (case entity_fields entity of
        None \<Rightarrow> None
      | Some fs \<Rightarrow> (case map_of fs name of None \<Rightarrow> None | Some f \<Rightarrow> Some (field_value f)))"

subsection \<open>Upload artifacts, current action\<close>

definition sealFilename :: "PullRequestContext \<Rightarrow> nat \<Rightarrow> string \<Rightarrow> string" where
  "sealFilename prContext timestamp filePath =
     ''artifact-'' @ basename filePath @ ''-PR'' @ show_nat (prNumber prContext) @ ''-''
       @ show_nat timestamp"

text \<open>The \<open>try\<close> block of one iteration of the per-file loop.\<close>

definition processArtifact ::
  "environment \<Rightarrow> platform \<Rightarrow> UploadArtifactsInputs \<Rightarrow> PullRequestContext \<Rightarrow> string \<Rightarrow> nat
     \<Rightarrow> string \<Rightarrow> world \<Rightarrow> (error + SealFileReference) \<times> world" where
  "processArtifact E P inputs prContext changeSetIndex timestamp filePath =
     bindS (uploadSealFile (file_system E) P (sealApiBaseUrl inputs) (sealApiToken inputs)
              filePath (sealFilename prContext timestamp filePath) (sealFileTypeTitle inputs))
       (\<lambda>fileId.
     bindS (addEntityToChangeSet P (sealApiBaseUrl inputs) (sealApiToken inputs) fileId
              changeSetIndex)
       (\<lambda>u.
     bindS (getSealFileVersion P (sealApiBaseUrl inputs) (sealApiToken inputs) fileId)
       (\<lambda>fileVersion w. (Inr \<lparr>ref_id = fileId, ref_version = fileVersion\<rparr>, w))))"

text \<open>
  The per-file loop with its \<open>catch\<close>: a reference is pushed when the \<open>try\<close> block
  completes, the failure count goes up when it throws.
\<close>

fun processArtifacts ::
  "environment \<Rightarrow> platform \<Rightarrow> UploadArtifactsInputs \<Rightarrow> PullRequestContext \<Rightarrow> string \<Rightarrow> nat
     \<Rightarrow> string list \<Rightarrow> SealFileReference list \<times> nat \<Rightarrow> world
     \<Rightarrow> (SealFileReference list \<times> nat) \<times> world" where
  "processArtifacts E P inputs prContext changeSetIndex timestamp [] acc w = (acc, w)"
| "processArtifacts E P inputs prContext changeSetIndex timestamp (filePath # rest)
       (uploadedFileRefs, processingFailedCount) w =
     (case processArtifact E P inputs prContext changeSetIndex timestamp filePath w of
        (Inr r, w1) \<Rightarrow>
          processArtifacts E P inputs prContext changeSetIndex timestamp rest
            (uploadedFileRefs @ [r], processingFailedCount) w1
      | (Inl e, w1) \<Rightarrow>
          processArtifacts E P inputs prContext changeSetIndex timestamp rest
            (uploadedFileRefs, processingFailedCount + 1) w1)"

text \<open>Step 4 of the run: archive what the field held, then patch the field.\<close>

definition run_link ::
  "platform \<Rightarrow> UploadArtifactsInputs \<Rightarrow> SealEntityLite \<Rightarrow> SealFileReference list \<Rightarrow> nat \<Rightarrow> world
     \<Rightarrow> (error + unit) \<times> world" where
  "run_link P inputs entity uploadedFileRefs processingFailedCount w =
     (if length uploadedFileRefs = 0 then
        (if processingFailedCount > 0 then (Inl (ProcessingFailed processingFailedCount), w)
         else (Inr (), w))
      else
        bindS (archiveEntities P (sealApiBaseUrl inputs) (sealApiToken inputs)
                 (existingRefs entity (fieldName inputs)))
          (\<lambda>u. linkFilesToEntityField P (sealApiBaseUrl inputs) (sealApiToken inputs)
                  (entity_id entity) (fieldName inputs) uploadedFileRefs) w)"

text \<open>The \<open>try\<close> block of the run.\<close>

definition run_try ::
  "environment \<Rightarrow> platform \<Rightarrow> UploadArtifactsInputs \<Rightarrow> PullRequestContext \<Rightarrow> world
     \<Rightarrow> (error + unit) \<times> world" where
  "run_try E P inputs prContext w =
     (let patterns = splitWords [] (artifactPatterns inputs) in
      if length patterns = 0 then (Inr (), w)
      else
        case glob E (join [CHR 0x0A] patterns) (Some (workspace prContext)) of
          Inl e \<Rightarrow> (Inl e, w)
        | Inr foundFiles \<Rightarrow>
            if length foundFiles = 0 then (Inr (), w)
            else
              bindS (findSealEntity P (sealApiBaseUrl inputs) (sealApiToken inputs)
                       (prNumber prContext) (sealTemplateId inputs))
                (\<lambda>entity.
              bindS (getSealEntityChangeSetIndex P (sealApiBaseUrl inputs) (sealApiToken inputs)
                       (entity_id entity))
                (\<lambda>changeSetIndex w2.
                   case processArtifacts E P inputs prContext changeSetIndex (clock E)
                          foundFiles ([], 0) w2 of
                     ((uploadedFileRefs, processingFailedCount), w3) \<Rightarrow>
                       run_link P inputs entity uploadedFileRefs processingFailedCount w3)) w)"

definition run :: "environment \<Rightarrow> platform \<Rightarrow> world \<Rightarrow> outcome \<times> world" where
  "run E P w =
     (case getUploadArtifactsInputs E of
        Inl e \<Rightarrow> (Rejected e, w)
      | Inr inputs \<Rightarrow>
          (case getPullRequestContext E of
             None \<Rightarrow> (Returned, w)
           | Some prContext \<Rightarrow>
               (case run_try E P inputs prContext w of
                  (Inl e, w1) \<Rightarrow> (SetFailed (message e), w1)
                | (Inr u, w1) \<Rightarrow> (Returned, w1))))"

subsection \<open>Upload artifacts, earlier action\<close>

definition sealFilename_v1 :: "PullRequestContext \<Rightarrow> nat \<Rightarrow> string \<Rightarrow> string" where
  "sealFilename_v1 prContext uploadCounter filePath =
     ''artifact-'' @ basename filePath @ ''-pr'' @ show_nat (prNumber prContext) @ ''-index''
       @ show_nat uploadCounter"

definition uploadArtifact_v1 ::
  "environment \<Rightarrow> platform \<Rightarrow> UploadArtifactsInputs \<Rightarrow> PullRequestContext \<Rightarrow> nat \<Rightarrow> string
     \<Rightarrow> world \<Rightarrow> (error + SealFileReference) \<times> world" where
  "uploadArtifact_v1 E P inputs prContext uploadCounter filePath =
     bindS (uploadSealFile_v1 (file_system E) P (sealApiBaseUrl inputs) (sealApiToken inputs)
              filePath (sealFilename_v1 prContext uploadCounter filePath)
              (sealFileTypeTitle inputs))
       (\<lambda>fileId.
     bindS (getSealFileVersion P (sealApiBaseUrl inputs) (sealApiToken inputs) fileId)
       (\<lambda>fileVersion w. (Inr \<lparr>ref_id = fileId, ref_version = fileVersion\<rparr>, w)))"

fun uploadArtifacts_v1 ::
  "environment \<Rightarrow> platform \<Rightarrow> UploadArtifactsInputs \<Rightarrow> PullRequestContext \<Rightarrow> string list
     \<Rightarrow> SealFileReference list \<times> nat \<times> nat \<Rightarrow> world
     \<Rightarrow> (SealFileReference list \<times> nat \<times> nat) \<times> world" where
  "uploadArtifacts_v1 E P inputs prContext [] acc w = (acc, w)"
| "uploadArtifacts_v1 E P inputs prContext (filePath # rest)
       (uploadedFileRefs, uploadFailedCount, uploadCounter) w =
     (case uploadArtifact_v1 E P inputs prContext (uploadCounter + 1) filePath w of
        (Inr r, w1) \<Rightarrow>
          uploadArtifacts_v1 E P inputs prContext rest
            (uploadedFileRefs @ [r], uploadFailedCount, uploadCounter + 1) w1
      | (Inl e, w1) \<Rightarrow>
          uploadArtifacts_v1 E P inputs prContext rest
            (uploadedFileRefs, uploadFailedCount + 1, uploadCounter + 1) w1)"

definition run_try_v1 ::
  "environment \<Rightarrow> platform \<Rightarrow> UploadArtifactsInputs \<Rightarrow> PullRequestContext \<Rightarrow> world
     \<Rightarrow> (error + unit) \<times> world" where
  "run_try_v1 E P inputs prContext w =
     (let patterns = splitWords [] (artifactPatterns inputs) in
      if length patterns = 0 then (Inr (), w)
      else
        case glob E (join [CHR 0x0A] patterns) None of
          Inl e \<Rightarrow> (Inl e, w)
        | Inr foundFiles \<Rightarrow>
            if length foundFiles = 0 then (Inr (), w)
            else
              bindS (findSealEntityId P (sealApiBaseUrl inputs) (sealApiToken inputs)
                       (prNumber prContext) (sealTemplateId inputs))
                (\<lambda>entityId w1.
                   case uploadArtifacts_v1 E P inputs prContext foundFiles ([], 0, 0) w1 of
                     ((uploadedFileRefs, uploadFailedCount, uploadCounter), w2) \<Rightarrow>
                       if length uploadedFileRefs = 0 then
                         (if uploadFailedCount > 0 then (Inl (UploadsFailed uploadFailedCount), w2)
                          else (Inr (), w2))
                       else
                         linkFilesToEntityField P (sealApiBaseUrl inputs) (sealApiToken inputs)
                           entityId (fieldName inputs) uploadedFileRefs w2) w)"

definition run_v1 :: "environment \<Rightarrow> platform \<Rightarrow> world \<Rightarrow> outcome \<times> world" where
  "run_v1 E P w =
     (case getUploadArtifactsInputs E of
        Inl e \<Rightarrow> (Rejected e, w)
      | Inr inputs \<Rightarrow>
          (case getPullRequestContext E of
             None \<Rightarrow> (Returned, w)
           | Some prContext \<Rightarrow>
               (case run_try_v1 E P inputs prContext w of
                  (Inl e, w1) \<Rightarrow> (SetFailed (message e), w1)
                | (Inr u, w1) \<Rightarrow> (Returned, w1))))"

subsection \<open>Codebase snapshot, current and earlier action\<close>

text \<open>
  Building the archive is the archiver's work; the action fixes the archive's name and
  fails when the archiver does. Removing the temporary directory at the end of the run
  changes nothing the model tracks and never fails the run.
\<close>

definition createArchive ::
  "environment \<Rightarrow> CodebaseSnapshotInputs \<Rightarrow> PullRequestContext \<Rightarrow> string \<Rightarrow> error + string" where
  "createArchive E inputs prContext snapshotDir =
     (let timestamp = clock E;
          extension = (case archiveType inputs of Zip \<Rightarrow> ''zip'' | Tar \<Rightarrow> ''tar.gz'');
          archiveName = repoName prContext @ ''-PR'' @ show_nat (prNumber prContext) @ ''-''
                          @ show_nat timestamp @ ''.'' @ extension;
          archivePath = snapshotDir @ ''/'' @ archiveName
      in case archiver E archivePath of Some e \<Rightarrow> Inl e | None \<Rightarrow> Inr archivePath)"

definition snapshot_try ::
  "environment \<Rightarrow> platform \<Rightarrow> CodebaseSnapshotInputs \<Rightarrow> PullRequestContext \<Rightarrow> world
     \<Rightarrow> (error + unit) \<times> world" where
  "snapshot_try E P inputs prContext w =
     (case bindE (mkdtemp E) (createArchive E inputs prContext) of
        Inl e \<Rightarrow> (Inl e, w)
      | Inr archivePath \<Rightarrow>
          bindS (findSealEntity P (sealApiBaseUrl inputs) (sealApiToken inputs)
                   (prNumber prContext) (sealTemplateId inputs))
            (\<lambda>entity.
          bindS (getSealEntityChangeSetIndex P (sealApiBaseUrl inputs) (sealApiToken inputs)
                   (entity_id entity))
            (\<lambda>changeSetIndex.
          bindS (uploadSealFile (file_system E) P (sealApiBaseUrl inputs) (sealApiToken inputs)
                   archivePath (basename archivePath) (sealFileTypeTitle inputs))
            (\<lambda>fileId.
          bindS (addEntityToChangeSet P (sealApiBaseUrl inputs) (sealApiToken inputs) fileId
                   changeSetIndex)
            (\<lambda>u.
          bindS (archiveEntities P (sealApiBaseUrl inputs) (sealApiToken inputs)
                   (existingRefs entity (snapshotFieldName inputs)))
            (\<lambda>u.
          bindS (getSealFileVersion P (sealApiBaseUrl inputs) (sealApiToken inputs) fileId)
            (\<lambda>fileVersion.
             linkFilesToEntityField P (sealApiBaseUrl inputs) (sealApiToken inputs)
               (entity_id entity) (snapshotFieldName inputs)
               [\<lparr>ref_id = fileId, ref_version = fileVersion\<rparr>])))))) w)"

definition run_snapshot :: "environment \<Rightarrow> platform \<Rightarrow> world \<Rightarrow> outcome \<times> world" where
  "run_snapshot E P w =
     (case getCodebaseSnapshotInputs E of
        Inl e \<Rightarrow> (Rejected e, w)
      | Inr inputs \<Rightarrow>
          (case getPullRequestContext E of
             None \<Rightarrow> (Returned, w)
           | Some prContext \<Rightarrow>
               (case snapshot_try E P inputs prContext w of
                  (Inl e, w1) \<Rightarrow> (SetFailed (message e), w1)
                | (Inr u, w1) \<Rightarrow> (Returned, w1))))"

definition snapshot_try_v1 ::
  "environment \<Rightarrow> platform \<Rightarrow> CodebaseSnapshotInputs \<Rightarrow> PullRequestContext \<Rightarrow> world
     \<Rightarrow> (error + unit) \<times> world" where
  "snapshot_try_v1 E P inputs prContext w =
     (case bindE (mkdtemp E) (createArchive E inputs prContext) of
        Inl e \<Rightarrow> (Inl e, w)
      | Inr archivePath \<Rightarrow>
          bindS (findSealEntityId P (sealApiBaseUrl inputs) (sealApiToken inputs)
                   (prNumber prContext) (sealTemplateId inputs))
            (\<lambda>entityId.
          bindS (uploadSealFile_v1 (file_system E) P (sealApiBaseUrl inputs)
                   (sealApiToken inputs) archivePath (basename archivePath)
                   (sealFileTypeTitle inputs))
            (\<lambda>fileId.
          bindS (getSealFileVersion P (sealApiBaseUrl inputs) (sealApiToken inputs) fileId)
            (\<lambda>fileVersion.
             linkFilesToEntityField P (sealApiBaseUrl inputs) (sealApiToken inputs)
               entityId (snapshotFieldName inputs)
               [\<lparr>ref_id = fileId, ref_version = fileVersion\<rparr>]))) w)"

definition run_snapshot_v1 :: "environment \<Rightarrow> platform \<Rightarrow> world \<Rightarrow> outcome \<times> world" where
  "run_snapshot_v1 E P w =
     (case getCodebaseSnapshotInputs E of
        Inl e \<Rightarrow> (Rejected e, w)
      | Inr inputs \<Rightarrow>
          (case getPullRequestContext E of
             None \<Rightarrow> (Returned, w)
           | Some prContext \<Rightarrow>
               (case snapshot_try_v1 E P inputs prContext w of
                  (Inl e, w1) \<Rightarrow> (SetFailed (message e), w1)
                | (Inr u, w1) \<Rightarrow> (Returned, w1))))"

section \<open>Example inputs\<close>

text \<open>Concrete entities, platforms and worlds on which the theorems below are exercised.\<close>

definition demo_entity :: "string \<Rightarrow> string \<Rightarrow> SealFileReference list \<Rightarrow> SealEntityLite" where
  "demo_entity eid tid refs =
     \<lparr>entity_id = eid, title = ''Change #7'', version = VersionNumber 1,
      sourceInfo = Some \<lparr>template = Some \<lparr>template_id = Some tid\<rparr>\<rparr>,
      entity_fields = Some [(''Release Artifact(s)'', \<lparr>field_value = refs\<rparr>)]\<rparr>"

definition ok_response :: "response_data \<Rightarrow> response" where
  "ok_response d = \<lparr>status = 200, statusText = ''OK'', resp_data = d, data_json = ''{}''\<rparr>"

definition search_platform :: "SealEntityLite list \<Rightarrow> platform" where
  "search_platform results = (\<lambda>history config. Reply (ok_response (EntityArray results)))"

definition world0 :: world where
  "world0 = \<lparr>calls = [], error_log = []\<rparr>"

definition endsWith :: "string \<Rightarrow> string \<Rightarrow> bool" where
  "endsWith s suffix \<longleftrightarrow> take (length suffix) (rev s) = rev suffix"

definition demo_changeset :: SealChangeSetResponse where
  "demo_changeset =
     \<lparr>changeset_id = ''cs-id'', index = ''CS-1'', changeset_name = ''Release'',
      changeset_status = OPEN, description = None, entityRefs = []\<rparr>"

text \<open>
  A platform that finds two entities for the search (the first of template \<open>T1\<close>, holding
  the reference \<open>f1\<close> in its artifact field), has a changeset, accepts every upload as
  file \<open>f2\<close>, and answers version fetches and archive requests with the given statuses.
\<close>

definition demo_platform :: "nat \<Rightarrow> nat \<Rightarrow> platform" where
  "demo_platform versionStatus archiveStatus history config =
     (case req_method config of
        PATCH \<Rightarrow> Reply (ok_response OtherData)
      | POST \<Rightarrow>
          (case req_data config of
             FileStream p \<Rightarrow> Reply (ok_response (UploadObject \<lparr>upload_id = ''f2''\<rparr>))
           | AddToChangeSetBody i \<Rightarrow> Reply (ok_response OtherData)
           | _ \<Rightarrow> Reply ((ok_response OtherData)\<lparr>status := archiveStatus\<rparr>))
      | GET \<Rightarrow>
          if params config \<noteq> [] then
            Reply (ok_response (EntityArray
              [demo_entity ''ent-1'' ''T1'' [\<lparr>ref_id = ''f1'', ref_version = Some 1\<rparr>],
               demo_entity ''ent-2'' ''T2'' []]))
          else if endsWith (url config) ''/change-set'' then
            Reply (ok_response (ChangeSetObject demo_changeset))
          else
            Reply ((ok_response (EntityObject
                      ((demo_entity ''f2'' ''file'' [])\<lparr>version := VersionNumber 3\<rparr>)))
                   \<lparr>status := versionStatus\<rparr>))"

definition demo_inputs :: UploadArtifactsInputs where
  "demo_inputs =
     \<lparr>sealApiToken = ''tok'', sealApiBaseUrl = ''https://seal/api/'', sealTemplateId = ''T1'',
      sealFileTypeTitle = ''GitHub-Artifacts'', fieldName = ''Release Artifact(s)'',
      artifactPatterns = ''*.xml''\<rparr>"

definition demo_pr :: PullRequestContext where
  "demo_pr =
     \<lparr>repoOwner = ''opvia'', repoName = ''demo'', prNumber = 7, prTitle = ''Fix'',
      headRef = ''feature'', baseRef = ''main'', commitSha = ''abc'', workspace = ''/ws''\<rparr>"

text \<open>
  An environment with the given input variables, event name, local files and glob
  result, for pull request 7 of \<open>opvia/demo\<close>.
\<close>

definition demo_env ::
  "(string \<times> string) list \<Rightarrow> string \<Rightarrow> file_system \<Rightarrow> string list \<Rightarrow> environment" where
  "demo_env vars event fs found =
     \<lparr>input_vars = map_of vars, eventName = event,
      payload_pull_request =
        Some \<lparr>pr_number = 7, pr_title = Some ''Fix'', pr_head_ref = Some ''feature'',
              pr_base_ref = Some ''main''\<rparr>,
      repo_owner = ''opvia'', repo_name = ''demo'', sha = ''abc'',
      GITHUB_WORKSPACE = Some ''/ws'', clock = 1700, file_system = fs,
      glob = (\<lambda>patterns cwd. Inr found), mkdtemp = Inr ''/tmp/codebase-snapshot-1'',
      archiver = (\<lambda>archivePath. None)\<rparr>"

definition demo_vars :: "(string \<times> string) list" where
  "demo_vars =
     [(''seal_api_token'', ''tok''), (''seal_api_base_url'', ''https://seal/api/''),
      (''seal_template_id'', ''T1''), (''artifact_patterns'', ''*.xml'')]"

definition readable :: file_system where
  "readable = (\<lambda>filePath. Inr \<lparr>file_size = 10, crc32c = 99\<rparr>)"

definition unreadable :: file_system where
  "unreadable = (\<lambda>filePath. Inl ''ENOENT: no such file or directory'')"

section \<open>Decimal rendering\<close>

lemma digit_char_isDigit: "isDigit (digit_char d)"
proof -
  have "d mod 10 < length ''0123456789''" by simp
  then have "''0123456789'' ! (d mod 10) \<in> set ''0123456789''" by (rule nth_mem)
  then show ?thesis by (simp only: isDigit_def digit_char_def)
qed

lemma digit_char_inj: "a < 10 \<Longrightarrow> b < 10 \<Longrightarrow> digit_char a = digit_char b \<Longrightarrow> a = b"
proof -
  assume a: "a < 10" and b: "b < 10" and e: "digit_char a = digit_char b"
  have d: "distinct ''0123456789''" by simp
  from a b have "a < length ''0123456789''" "b < length ''0123456789''" by simp_all
  with d e a b show ?thesis
    by (simp only: digit_char_def nth_eq_iff_index_eq mod_less)
qed

lemma show_nat_small: "n < 10 \<Longrightarrow> show_nat n = [digit_char n]"
  by (simp add: show_nat.simps [of n])

lemma show_nat_large:
  "\<not> n < 10 \<Longrightarrow> show_nat n = show_nat (n div 10) @ [digit_char (n mod 10)]"
  by (simp add: show_nat.simps [of n])

lemma show_nat_digits: "\<forall>c \<in> set (show_nat n). isDigit c"
proof (induction n rule: show_nat.induct)
  case (1 n)
  show ?case
  proof (cases "n < 10")
    case True
    then show ?thesis by (simp add: show_nat_small digit_char_isDigit)
  next
    case False
    from 1 [OF False] have "\<forall>c \<in> set (show_nat (n div 10)). isDigit c" .
    with False show ?thesis by (simp add: show_nat_large digit_char_isDigit)
  qed
qed

lemma show_nat_nonempty: "show_nat n \<noteq> []"
  by (cases "n < 10") (simp_all add: show_nat_small show_nat_large)

lemma show_nat_length: "length (show_nat n) = 1 \<longleftrightarrow> n < 10"
proof (cases "n < 10")
  case True
  then show ?thesis by (simp add: show_nat_small)
next
  case False
  have "length (show_nat (n div 10)) \<noteq> 0" using show_nat_nonempty [of "n div 10"] by simp
  with False show ?thesis by (simp add: show_nat_large)
qed

lemma show_nat_inj: "show_nat m = show_nat n \<Longrightarrow> m = n"
proof (induction m arbitrary: n rule: show_nat.induct)
  case (1 m)
  show ?case
  proof (cases "m < 10")
    case True
    from 1(2) have "length (show_nat m) = length (show_nat n)" by simp
    with True show_nat_length [of m] show_nat_length [of n] have n: "n < 10" by simp
    from 1(2) True n have "digit_char m = digit_char n" by (simp add: show_nat_small)
    with True n show ?thesis by (rule digit_char_inj)
  next
    case False
    from 1(2) have "length (show_nat m) = length (show_nat n)" by simp
    with False show_nat_length [of m] show_nat_length [of n] have n: "\<not> n < 10" by simp
    from 1(2) False n have e: "show_nat (m div 10) @ [digit_char (m mod 10)]
        = show_nat (n div 10) @ [digit_char (n mod 10)]"
      by (simp add: show_nat_large)
    then have "show_nat (m div 10) = show_nat (n div 10)" by simp
    from 1(1) [OF False this] have q: "m div 10 = n div 10" .
    from e have "digit_char (m mod 10) = digit_char (n mod 10)" by simp
    then have r: "m mod 10 = n mod 10" by (intro digit_char_inj) simp_all
    from q r show ?thesis by (metis div_mult_mod_eq)
  qed
qed

lemma digits_of_name:
  "takeWhile isDigit (rev (x @ ''-index'' @ show_nat i)) = rev (show_nat i)"
proof -
  have "rev (x @ ''-index'' @ show_nat i) = rev (show_nat i) @ (CHR ''x'' # rev (x @ ''-inde''))"
    by simp
  moreover have "\<not> isDigit CHR ''x''" by (simp add: isDigit_def)
  moreover have "\<forall>c \<in> set (rev (show_nat i)). isDigit c" using show_nat_digits [of i] by simp
  ultimately show ?thesis by (simp only: takeWhile_append2 takeWhile.simps if_False append_Nil2)
qed

section \<open>What the client sends\<close>

lemma axios_calls: "calls (snd (axios P cfg w)) = calls w @ [cfg]"
  by (simp add: axios_def Let_def split: reply.splits)

lemma axios_error_log: "error_log (snd (axios P cfg w)) = error_log w"
  by (simp add: axios_def Let_def split: reply.splits)

lemma archivePromise_calls:
  "apiToken \<noteq> [] \<Longrightarrow>
   calls (snd (archivePromise P base apiToken r w)) =
     calls w @ (if ref_id r = [] then [] else [archiveConfig base (apiHeaders apiToken []) (ref_id r)])"
  by (auto simp: archivePromise_def createApiConfig_def axios_def Let_def
      split: reply.splits)

lemma archivePromise_outcome:
  "apiToken \<noteq> [] \<Longrightarrow>
   fst (archivePromise P base apiToken r w) =
     Inr (if ref_id r = [] then ArchiveSkipped
          else
            case P (calls w) (archiveConfig base (apiHeaders apiToken []) (ref_id r)) of
              Reply resp \<Rightarrow>
                if status resp = 200 then ArchiveSuccess (ref_id r)
                else if validateStatus (status resp) then
                  ArchiveFailed (ref_id r) (''Status '' @ show_nat (status resp))
                else
                  ArchiveFailed (ref_id r)
                    (''Request failed with status code '' @ show_nat (status resp))
            | TransportFailure m \<Rightarrow> ArchiveFailed (ref_id r) m
            | OtherFailure m \<Rightarrow> ArchiveFailed (ref_id r) m)"
  by (auto simp: archivePromise_def createApiConfig_def axios_def Let_def validateStatus_def
      split: reply.splits)

lemma allSettled_length: "length (fst (allSettled f xs w)) = length xs"
proof (induction xs arbitrary: w)
  case Nil
  then show ?case by simp
next
  case (Cons x xs)
  obtain r w1 where a: "f x w = (r, w1)" by (cases "f x w")
  obtain rs w2 where b: "allSettled f xs w1 = (rs, w2)" by (cases "allSettled f xs w1")
  from Cons.IH [of w1] b have "length rs = length xs" by simp
  with a b show ?case by simp
qed

lemma allSettled_append:
  "allSettled f (xs @ ys) w =
     (case allSettled f xs w of (a, w1) \<Rightarrow>
        (case allSettled f ys w1 of (b, w2) \<Rightarrow> (a @ b, w2)))"
  by (induction xs arbitrary: w) (auto split: prod.splits)

lemma allSettled_archive_calls:
  "apiToken \<noteq> [] \<Longrightarrow>
   calls (snd (allSettled (archivePromise P base apiToken) refs w)) =
     calls w @ map (\<lambda>r. archiveConfig base (apiHeaders apiToken []) (ref_id r))
                 (filter (\<lambda>r. ref_id r \<noteq> []) refs)"
proof (induction refs arbitrary: w)
  case Nil
  then show ?case by simp
next
  case (Cons r rs)
  obtain out w1 where step: "archivePromise P base apiToken r w = (out, w1)"
    by (cases "archivePromise P base apiToken r w")
  from archivePromise_calls [OF Cons.prems, of P base r w] step
  have c1: "calls w1 = calls w @ (if ref_id r = [] then []
              else [archiveConfig base (apiHeaders apiToken []) (ref_id r)])" by simp
  obtain outs w2 where rest: "allSettled (archivePromise P base apiToken) rs w1 = (outs, w2)"
    by (cases "allSettled (archivePromise P base apiToken) rs w1")
  from Cons.IH [OF Cons.prems, of w1] rest
  have c2: "calls w2 = calls w1 @ map (\<lambda>r. archiveConfig base (apiHeaders apiToken []) (ref_id r))
                 (filter (\<lambda>r. ref_id r \<noteq> []) rs)" by simp
  show ?case using step rest c1 c2 by simp
qed

lemma allSettled_archive_fulfilled:
  "apiToken \<noteq> [] \<Longrightarrow>
   s \<in> set (fst (allSettled (archivePromise P base apiToken) refs w)) \<Longrightarrow> \<exists>out. s = Inr out"
proof (induction refs arbitrary: w)
  case Nil
  then show ?case by simp
next
  case (Cons r rs)
  obtain out w1 where step: "archivePromise P base apiToken r w = (out, w1)"
    by (cases "archivePromise P base apiToken r w")
  obtain outs w2 where rest: "allSettled (archivePromise P base apiToken) rs w1 = (outs, w2)"
    by (cases "allSettled (archivePromise P base apiToken) rs w1")
  from Cons.prems(2) step rest have "s = out \<or> s \<in> set outs" by simp
  then show ?case
  proof
    assume "s = out"
    with archivePromise_outcome [OF Cons.prems(1), of P base r w] step show ?thesis by simp
  next
    assume "s \<in> set outs"
    with Cons.IH [OF Cons.prems(1), of w1] rest show ?thesis by simp
  qed
qed

lemma archiveEntities_never_raises: "fst (archiveEntities P apiUrl apiToken fileRefs w) = Inr ()"
  by (simp add: archiveEntities_def split: option.splits prod.splits)

lemma archiveEntities_calls:
  "apiToken \<noteq> [] \<Longrightarrow>
   calls (snd (archiveEntities P apiUrl apiToken fileRefs w)) =
     calls w @ map (\<lambda>r. archiveConfig (normalizeApiUrl apiUrl) (apiHeaders apiToken []) (ref_id r))
                 (filter (\<lambda>r. ref_id r \<noteq> []) (case fileRefs of None \<Rightarrow> [] | Some refs \<Rightarrow> refs))"
proof (cases fileRefs)
  case None
  then show ?thesis by (simp add: archiveEntities_def)
next
  case (Some refs)
  assume tok: "apiToken \<noteq> []"
  show ?thesis
  proof (cases "refs = []")
    case True
    with Some show ?thesis by (simp add: archiveEntities_def)
  next
    case False
    obtain outs w1 where r: "archivePromises P apiUrl apiToken refs w = (outs, w1)"
      by (cases "archivePromises P apiUrl apiToken refs w")
    from allSettled_archive_calls [OF tok, of P "normalizeApiUrl apiUrl" refs w] r
    have "calls w1 = calls w @ map (\<lambda>r. archiveConfig (normalizeApiUrl apiUrl) (apiHeaders apiToken []) (ref_id r))
                 (filter (\<lambda>r. ref_id r \<noteq> []) refs)"
      by (simp add: archivePromises_def)
    with Some False r show ?thesis by (simp add: archiveEntities_def)
  qed
qed

lemma linkFilesToEntityField_calls:
  "calls (snd (linkFilesToEntityField P apiUrl apiToken entityId fld refs w)) =
     calls w @ (if refs = [] \<or> apiToken = [] then []
                else [linkConfig apiUrl (apiHeaders apiToken []) entityId fld refs])"
  by (auto simp: linkFilesToEntityField_def createApiConfig_def axios_def Let_def
      split: reply.splits sum.splits axios_error.splits prod.splits)

lemma run_link_proceeds:
  "uploadedFileRefs \<noteq> [] \<Longrightarrow>
   run_link P inputs entity uploadedFileRefs n w =
     linkFilesToEntityField P (sealApiBaseUrl inputs) (sealApiToken inputs) (entity_id entity)
       (fieldName inputs) uploadedFileRefs
       (snd (archiveEntities P (sealApiBaseUrl inputs) (sealApiToken inputs)
               (existingRefs entity (fieldName inputs)) w))"
proof -
  assume ne: "uploadedFileRefs \<noteq> []"
  obtain r w1 where a: "archiveEntities P (sealApiBaseUrl inputs) (sealApiToken inputs)
               (existingRefs entity (fieldName inputs)) w = (r, w1)"
    by (cases "archiveEntities P (sealApiBaseUrl inputs) (sealApiToken inputs)
               (existingRefs entity (fieldName inputs)) w")
  from archiveEntities_never_raises [of P "sealApiBaseUrl inputs" "sealApiToken inputs"
      "existingRefs entity (fieldName inputs)" w] a
  have "r = Inr ()" by simp
  with ne a show ?thesis by (simp add: run_link_def bindS_def)
qed

lemma run_link_calls:
  assumes "uploadedFileRefs \<noteq> []" and "sealApiToken inputs \<noteq> []"
  shows "calls (snd (run_link P inputs entity uploadedFileRefs n w)) =
     calls w
     @ map (\<lambda>r. archiveConfig (normalizeApiUrl (sealApiBaseUrl inputs))
                   (apiHeaders (sealApiToken inputs) []) (ref_id r))
         (filter (\<lambda>r. ref_id r \<noteq> [])
            (case existingRefs entity (fieldName inputs) of None \<Rightarrow> [] | Some refs \<Rightarrow> refs))
     @ [linkConfig (sealApiBaseUrl inputs) (apiHeaders (sealApiToken inputs) [])
          (entity_id entity) (fieldName inputs) uploadedFileRefs]"
  using assms
  by (simp add: run_link_proceeds linkFilesToEntityField_calls archiveEntities_calls)

lemma searchEntities_on_results:
  assumes "templateId \<noteq> []" and "apiToken \<noteq> []"
    and "axios P (searchConfig apiUrl (apiHeaders apiToken []) (''#'' @ show_nat pr)) w
           = (Inr response, w1)"
    and "status response = 200" and "resp_data response = EntityArray searchResults"
  shows "searchEntities functionName P apiUrl apiToken pr templateId w =
      (let matching = filter (\<lambda>e. entityTemplateId e = Some templateId) searchResults in
       if length matching = 0 then
         (Inl (NoEntityFound (''#'' @ show_nat pr) templateId),
          core_error ((''['' @ functionName @ ''] '') @ ''No entity found matching title ''
              @ quoted (''#'' @ show_nat pr) @ '' and template ID '' @ quoted templateId
              @ ''.'') w1)
       else if length matching > 1 then
         (Inl (MultipleEntitiesFound (''#'' @ show_nat pr) templateId),
          core_error ((''['' @ functionName @ ''] '') @ ''Found multiple entities (''
              @ join '', '' (map entity_id matching) @ '') matching criteria. Cannot proceed.'') w1)
       else (Inr matching, w1))"
  using assms
  by (simp add: searchEntities_def createApiConfig_def matchingEntities_def Let_def)

section \<open>Facts about the example inputs\<close>

lemma show_nat_7: "show_nat 7 = ''7''"
  by (simp add: show_nat.simps digit_char_def)

lemma show_nat_1: "show_nat 1 = ''1''"
  by (simp add: show_nat.simps digit_char_def)

lemma show_nat_2: "show_nat 2 = ''2''"
  by (simp add: show_nat.simps digit_char_def)

lemma show_nat_1700: "show_nat 1700 = ''1700''"
  by (simp add: show_nat.simps digit_char_def)

lemma demo_entity_template: "entityTemplateId (demo_entity eid tid refs) = Some tid"
  by (simp add: entityTemplateId_def demo_entity_def)

lemma search_platform_axios:
  "axios (search_platform results) cfg w
     = (Inr (ok_response (EntityArray results)), w\<lparr>calls := calls w @ [cfg]\<rparr>)"
  by (simp add: axios_def search_platform_def ok_response_def validateStatus_def)

lemma demo_base_url: "normalizeApiUrl ''https://seal/api/'' = ''https://seal/api/''"
  by (simp add: normalizeApiUrl_def)

lemma endsWith_append: "endsWith (a @ suffix) suffix"
  by (simp add: endsWith_def)

lemma demo_existing:
  "existingRefs (demo_entity eid tid refs) (fieldName demo_inputs) = Some refs"
  by (simp add: existingRefs_def demo_entity_def demo_inputs_def)

lemma demo_upload:
  "fst (uploadSealFile readable (demo_platform vs as) ''https://seal/api/'' ''tok'' filePath name
     ''GitHub-Artifacts'' w) = Inr ''f2''"
  by (simp add: uploadSealFile_def readable_def createApiConfig_def axios_def demo_platform_def
      uploadConfig_def ok_response_def validateStatus_def responseId_def Let_def)

lemma demo_add:
  "fst (addEntityToChangeSet (demo_platform vs as) ''https://seal/api/'' ''tok'' fileId idx w)
     = Inr ()"
  by (simp add: addEntityToChangeSet_def createApiConfig_def axios_def demo_platform_def
      addToChangeSetConfig_def ok_response_def validateStatus_def Let_def)

lemma demo_version_url:
  "\<not> endsWith (normalizeApiUrl ''https://seal/api/'' @ ''entities/'' @ ''f2'') ''/change-set''"
  by (simp add: endsWith_def normalizeApiUrl_def)

lemma demo_version_404:
  "demo_platform 404 as h (versionConfig ''https://seal/api/'' hs ''f2'') =
     Reply ((ok_response (EntityObject
                      ((demo_entity ''f2'' ''file'' [])\<lparr>version := VersionNumber 3\<rparr>)))
                   \<lparr>status := 404\<rparr>)"
  using demo_version_url by (simp add: demo_platform_def versionConfig_def)

lemma trim_plain: "s \<noteq> [] \<Longrightarrow> \<not> isWhiteSpace (hd s) \<Longrightarrow> \<not> isWhiteSpace (last s) \<Longrightarrow> trim s = s"
proof -
  assume ne: "s \<noteq> []" and h: "\<not> isWhiteSpace (hd s)" and l: "\<not> isWhiteSpace (last s)"
  from ne h have 1: "dropWhile isWhiteSpace s = s" by (cases s) simp_all
  from ne l have "\<not> isWhiteSpace (hd (rev s))" by (simp add: hd_rev)
  with ne have 2: "dropWhile isWhiteSpace (rev s) = rev s" by (cases "rev s") simp_all
  show ?thesis by (simp add: trim_def 1 2)
qed

lemma demo_getInput:
  "map_of vars name = Some v \<Longrightarrow> v \<noteq> [] \<Longrightarrow> \<not> isWhiteSpace (hd v) \<Longrightarrow> \<not> isWhiteSpace (last v)
     \<Longrightarrow> getInput (demo_env vars event fs found) name required = Inr v"
  by (simp add: getInput_def demo_env_def trim_plain)

lemma demo_getInput_missing:
  "map_of vars name = None \<Longrightarrow> getInput (demo_env vars event fs found) name False = Inr []"
  by (simp add: getInput_def demo_env_def trim_def)

lemma demo_upload_inputs:
  "getUploadArtifactsInputs (demo_env demo_vars event fs found) = Inr demo_inputs"
proof -
  have "getInput (demo_env demo_vars event fs found) ''seal_api_token'' True = Inr ''tok''"
    by (rule demo_getInput) (simp_all add: demo_vars_def isWhiteSpace_def)
  moreover have "getInput (demo_env demo_vars event fs found) ''seal_api_base_url'' True
      = Inr ''https://seal/api/''"
    by (rule demo_getInput) (simp_all add: demo_vars_def isWhiteSpace_def)
  moreover have "getInput (demo_env demo_vars event fs found) ''seal_template_id'' True = Inr ''T1''"
    by (rule demo_getInput) (simp_all add: demo_vars_def isWhiteSpace_def)
  moreover have "getInput (demo_env demo_vars event fs found) ''artifact_patterns'' True = Inr ''*.xml''"
    by (rule demo_getInput) (simp_all add: demo_vars_def isWhiteSpace_def)
  moreover have "getInput (demo_env demo_vars event fs found) ''seal_field_name'' False = Inr []"
    by (rule demo_getInput_missing) (simp add: demo_vars_def)
  moreover have "getInput (demo_env demo_vars event fs found) ''seal_file_type_title'' False = Inr []"
    by (rule demo_getInput_missing) (simp add: demo_vars_def)
  ultimately show ?thesis
    by (simp add: getUploadArtifactsInputs_def bindE_def orDefault_def demo_inputs_def)
qed

lemma demo_no_context: "getPullRequestContext (demo_env vars ''push'' fs found) = None"
  by (simp add: getPullRequestContext_def isPullRequestEvent_def demo_env_def)

lemma demo_context: "getPullRequestContext (demo_env vars ''pull_request'' fs found) = Some demo_pr"
  by (simp add: getPullRequestContext_def isPullRequestEvent_def demo_env_def falsy_def demo_pr_def)

lemma demo_patterns: "splitWords [] ''*.xml'' = [''*.xml'']"
  by (simp add: isWhiteSpace_def)

lemma demo_find:
  "fst (findSealEntity (demo_platform vs as) ''https://seal/api/'' ''tok'' 7 ''T1'' w)
     = Inr (demo_entity ''ent-1'' ''T1'' [\<lparr>ref_id = ''f1'', ref_version = Some 1\<rparr>])"
proof -
  have ax: "axios (demo_platform vs as)
      (searchConfig ''https://seal/api/'' (apiHeaders ''tok'' []) (''#'' @ show_nat 7)) w
      = (Inr (ok_response (EntityArray
              [demo_entity ''ent-1'' ''T1'' [\<lparr>ref_id = ''f1'', ref_version = Some 1\<rparr>],
               demo_entity ''ent-2'' ''T2'' []])),
         w\<lparr>calls := calls w @ [searchConfig ''https://seal/api/'' (apiHeaders ''tok'' [])
              (''#'' @ show_nat 7)]\<rparr>)"
    by (simp add: axios_def demo_platform_def searchConfig_def ok_response_def validateStatus_def)
  have se: "fst (searchEntities ''findSealEntity'' (demo_platform vs as) ''https://seal/api/'' ''tok''
      7 ''T1'' w) = Inr [demo_entity ''ent-1'' ''T1'' [\<lparr>ref_id = ''f1'', ref_version = Some 1\<rparr>]]"
    using searchEntities_on_results [OF _ _ ax, of "''T1''"
        "[demo_entity ''ent-1'' ''T1'' [\<lparr>ref_id = ''f1'', ref_version = Some 1\<rparr>],
          demo_entity ''ent-2'' ''T2'' []]" "''findSealEntity''"]
    by (simp add: ok_response_def demo_entity_template Let_def)
  show ?thesis
    by (cases "searchEntities ''findSealEntity'' (demo_platform vs as) ''https://seal/api/'' ''tok''
      7 ''T1'' w") (use se in \<open>simp add: findSealEntity_def\<close>)
qed

lemma demo_changeset_index:
  "fst (getSealEntityChangeSetIndex (demo_platform vs as) ''https://seal/api/'' ''tok'' ''ent-1'' w)
     = Inr ''CS-1''"
proof -
  have "demo_platform vs as (calls w) (changeSetConfig ''https://seal/api/'' hs ''ent-1'')
      = Reply (ok_response (ChangeSetObject demo_changeset))" for hs
    using endsWith_append [of "normalizeApiUrl ''https://seal/api/'' @ ''entities/'' @ ''ent-1''"
        "''/change-set''"]
    by (simp add: demo_platform_def changeSetConfig_def)
  then show ?thesis
    by (simp add: getSealEntityChangeSetIndex_def createApiConfig_def axios_def ok_response_def
        validateStatus_def responseIndex_def demo_changeset_def Let_def)
qed

lemma demo_unreadable:
  "processArtifacts (demo_env vars event unreadable found) P demo_inputs pc idx t [filePath]
     ([], 0) w = (([], 1), w)"
  by (simp add: processArtifact_def bindS_def uploadSealFile_def unreadable_def demo_env_def)

lemma two_uploads_one_name:
  "map (\<lambda>r. map_of (params r) ''filename'')
     (filter (\<lambda>r. req_method r = POST \<and> params r \<noteq> [])
        (calls (snd (processArtifacts (demo_env demo_vars ''pull_request'' readable
                       [''/ws/a/README.md'', ''/ws/b/README.md''])
                     (demo_platform 200 200) demo_inputs demo_pr ''CS-1'' 1700
                     [''/ws/a/README.md'', ''/ws/b/README.md''] ([], 0) world0))))
   = [Some ''artifact-README.md-PR7-1700'', Some ''artifact-README.md-PR7-1700'']"
  by code_simp

section \<open>The resolver returns an entity exactly on a unique match\<close>

text \<open>
  The earlier resolver returns the id of the unique match, and fails in addition when
  that id is empty.
\<close>

lemma findSealEntityId_unique_match:
  assumes "templateId \<noteq> []" and "apiToken \<noteq> []"
    and "axios P (searchConfig apiUrl (apiHeaders apiToken []) (''#'' @ show_nat pr)) w
           = (Inr response, w1)"
    and "status response = 200" and "resp_data response = EntityArray searchResults"
  shows "(\<exists>entityId. fst (findSealEntityId P apiUrl apiToken pr templateId w) = Inr entityId)
           \<longleftrightarrow> (\<exists>entity. filter (\<lambda>e. entityTemplateId e = Some templateId) searchResults = [entity]
                  \<and> entity_id entity \<noteq> [])"
proof -
  let ?m = "filter (\<lambda>e. entityTemplateId e = Some templateId) searchResults"
  note se = searchEntities_on_results [OF assms, of "''findSealEntityId''"]
  show ?thesis
  proof (cases ?m)
    case Nil
    then show ?thesis by (simp add: findSealEntityId_def se)
  next
    case (Cons a as)
    then show ?thesis by (cases as) (simp_all add: findSealEntityId_def se)
  qed
qed

text \<open>
  C1. Whenever the entity search answers with status 200 and a list of results,
  \<open>findSealEntity\<close> returns an entity if and only if exactly one element of the list has
  the given template id (and then it returns that element); with no such element it
  raises the not-found error, with two or more the several-matches error.
\<close>

theorem findSealEntity_unique_match:
  assumes "templateId \<noteq> []" and "apiToken \<noteq> []"
    and "axios P (searchConfig apiUrl (apiHeaders apiToken []) (''#'' @ show_nat pr)) w
           = (Inr response, w1)"
    and "status response = 200" and "resp_data response = EntityArray searchResults"
  shows "((\<exists>entity. fst (findSealEntity P apiUrl apiToken pr templateId w) = Inr entity)
            \<longleftrightarrow> length (filter (\<lambda>e. entityTemplateId e = Some templateId) searchResults) = 1)
       \<and> (length (filter (\<lambda>e. entityTemplateId e = Some templateId) searchResults) = 0
            \<longrightarrow> fst (findSealEntity P apiUrl apiToken pr templateId w)
                  = Inl (NoEntityFound (''#'' @ show_nat pr) templateId))
       \<and> (length (filter (\<lambda>e. entityTemplateId e = Some templateId) searchResults) \<ge> 2
            \<longrightarrow> fst (findSealEntity P apiUrl apiToken pr templateId w)
                  = Inl (MultipleEntitiesFound (''#'' @ show_nat pr) templateId))
       \<and> (\<forall>entity. fst (findSealEntity P apiUrl apiToken pr templateId w) = Inr entity
            \<longrightarrow> filter (\<lambda>e. entityTemplateId e = Some templateId) searchResults = [entity])"
proof -
  let ?m = "filter (\<lambda>e. entityTemplateId e = Some templateId) searchResults"
  note se = searchEntities_on_results [OF assms, of "''findSealEntity''"]
  show ?thesis
  proof (cases ?m)
    case Nil
    then show ?thesis by (simp add: findSealEntity_def se)
  next
    case (Cons a as)
    then show ?thesis by (cases as) (simp_all add: findSealEntity_def se)
  qed
qed

theorem findSealEntity_unique_match_witness:
  "''T1'' \<noteq> [] \<and> ''tok'' \<noteq> []
   \<and> axios (search_platform [demo_entity ''e1'' ''T1'' [], demo_entity ''e2'' ''T2'' []])
        (searchConfig ''https://seal/api'' (apiHeaders ''tok'' []) (''#'' @ show_nat 7)) world0
      = (Inr (ok_response (EntityArray [demo_entity ''e1'' ''T1'' [], demo_entity ''e2'' ''T2'' []])),
         world0\<lparr>calls := [searchConfig ''https://seal/api'' (apiHeaders ''tok'' []) (''#'' @ show_nat 7)]\<rparr>)
   \<and> length (filter (\<lambda>e. entityTemplateId e = Some ''T1'')
        [demo_entity ''e1'' ''T1'' [], demo_entity ''e2'' ''T2'' []]) = 1
   \<and> fst (findSealEntity (search_platform [demo_entity ''e1'' ''T1'' [], demo_entity ''e2'' ''T2'' []])
        ''https://seal/api'' ''tok'' 7 ''T1'' world0) = Inr (demo_entity ''e1'' ''T1'' [])"
proof -
  let ?rs = "[demo_entity ''e1'' ''T1'' [], demo_entity ''e2'' ''T2'' []]"
  let ?r = "fst (findSealEntity (search_platform ?rs) ''https://seal/api'' ''tok'' 7 ''T1'' world0)"
  have ax: "axios (search_platform ?rs)
        (searchConfig ''https://seal/api'' (apiHeaders ''tok'' []) (''#'' @ show_nat 7)) world0
      = (Inr (ok_response (EntityArray ?rs)),
         world0\<lparr>calls := [searchConfig ''https://seal/api'' (apiHeaders ''tok'' []) (''#'' @ show_nat 7)]\<rparr>)"
    by (simp add: axios_def search_platform_def ok_response_def validateStatus_def world0_def)
  have m: "filter (\<lambda>e. entityTemplateId e = Some ''T1'') ?rs = [demo_entity ''e1'' ''T1'' []]"
    by (simp add: entityTemplateId_def demo_entity_def)
  have t: "''T1'' \<noteq> []" "''tok'' \<noteq> []" by simp_all
  have st: "status (ok_response (EntityArray ?rs)) = 200"
    "resp_data (ok_response (EntityArray ?rs)) = EntityArray ?rs"
    by (simp_all add: ok_response_def)
  note main = findSealEntity_unique_match [OF t ax st]
  from main have ex: "\<exists>entity. ?r = Inr entity" unfolding m by simp
  then obtain entity where e: "?r = Inr entity" ..
  from main e have "filter (\<lambda>e. entityTemplateId e = Some ''T1'') ?rs = [entity]" by blast
  with m have "entity = demo_entity ''e1'' ''T1'' []" by simp
  with e have "?r = Inr (demo_entity ''e1'' ''T1'' [])" by simp
  then show ?thesis using ax m t by simp
qed

section \<open>The per-file loop\<close>

lemma processArtifacts_count:
  "processArtifacts E P inputs pc idx t files (refs, n) w = ((refs', n'), w')
     \<Longrightarrow> length refs' + n' = length refs + n + length files"
proof (induction files arbitrary: refs n w)
  case Nil
  then show ?case by simp
next
  case (Cons f fs)
  obtain r w1 where step: "processArtifact E P inputs pc idx t f w = (r, w1)"
    by (cases "processArtifact E P inputs pc idx t f w")
  show ?case
  proof (cases r)
    case (Inl e)
    with Cons.prems step
    have "processArtifacts E P inputs pc idx t fs (refs, n + 1) w1 = ((refs', n'), w')" by simp
    from Cons.IH [OF this] show ?thesis by simp
  next
    case (Inr x)
    with Cons.prems step
    have "processArtifacts E P inputs pc idx t fs (refs @ [x], n) w1 = ((refs', n'), w')" by simp
    from Cons.IH [OF this] show ?thesis by simp
  qed
qed

lemma processArtifacts_append:
  "processArtifacts E P inputs pc idx t (xs @ ys) acc w =
     (case processArtifacts E P inputs pc idx t xs acc w of
        (acc1, w1) \<Rightarrow> processArtifacts E P inputs pc idx t ys acc1 w1)"
proof (induction xs arbitrary: acc w)
  case Nil
  then show ?case by simp
next
  case (Cons f fs)
  obtain refs n where acc: "acc = (refs, n)" by (cases acc)
  show ?case unfolding acc
    by (simp add: Cons.IH split: prod.splits sum.splits)
qed

lemma uploadArtifacts_v1_count:
  "uploadArtifacts_v1 E P inputs pc files (refs, n, c) w = ((refs', n', c'), w')
     \<Longrightarrow> length refs' + n' = length refs + n + length files \<and> c' = c + length files"
proof (induction files arbitrary: refs n c w)
  case Nil
  then show ?case by simp
next
  case (Cons f fs)
  obtain r w1 where step: "uploadArtifact_v1 E P inputs pc (c + 1) f w = (r, w1)"
    by (cases "uploadArtifact_v1 E P inputs pc (c + 1) f w")
  show ?case
  proof (cases r)
    case (Inl e)
    with Cons.prems step
    have "uploadArtifacts_v1 E P inputs pc fs (refs, n + 1, c + 1) w1 = ((refs', n', c'), w')"
      by simp
    from Cons.IH [OF this] show ?thesis by simp
  next
    case (Inr x)
    with Cons.prems step
    have "uploadArtifacts_v1 E P inputs pc fs (refs @ [x], n, c + 1) w1 = ((refs', n', c'), w')"
      by simp
    from Cons.IH [OF this] show ?thesis by simp
  qed
qed

lemma uploadArtifacts_v1_append:
  "uploadArtifacts_v1 E P inputs pc (xs @ ys) acc w =
     (case uploadArtifacts_v1 E P inputs pc xs acc w of
        (acc1, w1) \<Rightarrow> uploadArtifacts_v1 E P inputs pc ys acc1 w1)"
proof (induction xs arbitrary: acc w)
  case Nil
  then show ?case by simp
next
  case (Cons f fs)
  obtain refs n c where acc: "acc = (refs, n, c)" by (cases acc)
  show ?case unfolding acc
    by (simp add: Cons.IH split: prod.splits sum.splits)
qed

text \<open>
  C3. For every batch of files the per-file loop ends with as many collected references
  and counted failures together as there were files, in the current action and in the
  earlier one. The loop has no way out but its end: whatever happened on the files
  \<open>earlier\<close>, the files \<open>later\<close> are processed next, from the references, the
  count and the world the earlier ones left.
\<close>

theorem per_file_loop_counts_every_file:
  "length (fst (fst (processArtifacts E P inputs pc idx t files ([], 0) w)))
     + snd (fst (processArtifacts E P inputs pc idx t files ([], 0) w)) = length files
   \<and> processArtifacts E P inputs pc idx t (earlier @ later) ([], 0) w =
       processArtifacts E P inputs pc idx t later
         (fst (processArtifacts E P inputs pc idx t earlier ([], 0) w))
         (snd (processArtifacts E P inputs pc idx t earlier ([], 0) w))
   \<and> length (fst (fst (uploadArtifacts_v1 E P inputs pc files ([], 0, 0) w)))
     + fst (snd (fst (uploadArtifacts_v1 E P inputs pc files ([], 0, 0) w))) = length files
   \<and> uploadArtifacts_v1 E P inputs pc (earlier @ later) ([], 0, 0) w =
       uploadArtifacts_v1 E P inputs pc later
         (fst (uploadArtifacts_v1 E P inputs pc earlier ([], 0, 0) w))
         (snd (uploadArtifacts_v1 E P inputs pc earlier ([], 0, 0) w))"
proof -
  obtain refs n w' where
    r: "processArtifacts E P inputs pc idx t files ([], 0) w = ((refs, n), w')"
    by (metis prod.exhaust)
  obtain refs1 n1 c1 w1 where
    r1: "uploadArtifacts_v1 E P inputs pc files ([], 0, 0) w = ((refs1, n1, c1), w1)"
    by (metis prod.exhaust)
  from processArtifacts_count [OF r] uploadArtifacts_v1_count [OF r1]
  show ?thesis
    by (simp add: r r1 processArtifacts_append uploadArtifacts_v1_append split: prod.splits)
qed

section \<open>An empty reference list is never patched in\<close>

text \<open>
  C10. Called with an empty reference list, \<open>linkFilesToEntityField\<close> returns without
  error and leaves the world as it was: no request is sent. In general the only request it
  ever sends is one PATCH carrying the given list, and it sends none when the list is
  empty, so it never writes an empty list to a field.
\<close>

theorem linkFilesToEntityField_empty_is_noop:
  "linkFilesToEntityField P apiUrl apiToken entityId fld [] w = (Inr (), w)
   \<and> calls (snd (linkFilesToEntityField P apiUrl apiToken entityId fld refs w)) =
       calls w @ (if refs = [] \<or> apiToken = [] then []
                  else [linkConfig apiUrl (apiHeaders apiToken []) entityId fld refs])
   \<and> req_data (linkConfig apiUrl (apiHeaders apiToken []) entityId fld refs) = FieldPatch refs
   \<and> req_method (linkConfig apiUrl (apiHeaders apiToken []) entityId fld refs) = PATCH"
proof -
  have "linkFilesToEntityField P apiUrl apiToken entityId fld [] w = (Inr (), w)"
    by (simp add: linkFilesToEntityField_def)
  moreover have "req_data (linkConfig apiUrl (apiHeaders apiToken []) entityId fld refs)
      = FieldPatch refs"
    by (simp add: linkConfig_def)
  moreover have "req_method (linkConfig apiUrl (apiHeaders apiToken []) entityId fld refs) = PATCH"
    by (simp add: linkConfig_def)
  ultimately show ?thesis
    using linkFilesToEntityField_calls [of P apiUrl apiToken entityId fld refs w] by blast
qed

section \<open>The version fetch never fails a file\<close>

lemma getSealFileVersion_total:
  "apiToken \<noteq> [] \<Longrightarrow> \<exists>v. fst (getSealFileVersion P apiUrl apiToken fileId w) = Inr v"
  by (auto simp: getSealFileVersion_def createApiConfig_def axios_def Let_def
      split: reply.splits js_version.splits)

lemma uploadSealFile_needs_token:
  "uploadSealFile fs P apiUrl apiToken filePath name typeTitle w = (Inr newId, w1)
     \<Longrightarrow> apiToken \<noteq> []"
  by (auto simp: uploadSealFile_def createApiConfig_def split: sum.splits)

lemma uploadSealFile_v1_needs_token:
  "uploadSealFile_v1 fs P apiUrl apiToken filePath name typeTitle w = (Inr newId, w1)
     \<Longrightarrow> apiToken \<noteq> []"
  by (auto simp: uploadSealFile_v1_def createApiConfig_def split: sum.splits)

text \<open>
  C6. With a token (so that the request is made at all), \<open>getSealFileVersion\<close> never
  raises, whatever the platform answers: a transport failure or any other error of the
  call, a status other than 200, a missing or \<open>null\<close> version and a version that is not a
  number all give \<open>null\<close>; only a numeric version under status 200 is returned. In the
  per-file loop (current and earlier action) the token is there once an upload has gone
  through, so the version fetch that follows cannot raise; and a file whose upload went
  through, and whose version fetch gave \<open>null\<close>, is collected as a reference with
  version \<open>null\<close>, the failure count staying as it was.
\<close>

theorem getSealFileVersion_never_raises:
  assumes "apiToken \<noteq> []"
  shows "fst (getSealFileVersion P apiUrl apiToken fileId w) =
     Inr (case P (calls w) (versionConfig apiUrl (apiHeaders apiToken []) fileId) of
            Reply r \<Rightarrow>
              if status r = 200 then
                (case responseVersion (resp_data r) of
                   VersionUndefined \<Rightarrow> None
                 | VersionNull \<Rightarrow> None
                 | VersionNumber v \<Rightarrow> Some v
                 | VersionOther \<Rightarrow> None)
              else None
          | TransportFailure m \<Rightarrow> None
          | OtherFailure m \<Rightarrow> None)
   \<and> (uploadSealFile (file_system E) P (sealApiBaseUrl inputs) (sealApiToken inputs) filePath
             (sealFilename pc t filePath) (sealFileTypeTitle inputs) w = (Inr newId, w1)
        \<or> uploadSealFile_v1 (file_system E) P (sealApiBaseUrl inputs) (sealApiToken inputs)
             filePath (sealFilename_v1 pc (c + 1) filePath) (sealFileTypeTitle inputs) w
             = (Inr newId, w1)
        \<longrightarrow> (\<exists>v. fst (getSealFileVersion P (sealApiBaseUrl inputs) (sealApiToken inputs)
                        newId w') = Inr v))
   \<and> (uploadSealFile (file_system E) P (sealApiBaseUrl inputs) (sealApiToken inputs) filePath
             (sealFilename pc t filePath) (sealFileTypeTitle inputs) w = (Inr newId, w1)
        \<and> addEntityToChangeSet P (sealApiBaseUrl inputs) (sealApiToken inputs) newId idx w1
             = (Inr (), w2)
        \<and> getSealFileVersion P (sealApiBaseUrl inputs) (sealApiToken inputs) newId w2
             = (Inr None, w3)
        \<longrightarrow> processArtifacts E P inputs pc idx t (filePath # rest) (refs, n) w =
              processArtifacts E P inputs pc idx t rest
                (refs @ [\<lparr>ref_id = newId, ref_version = None\<rparr>], n) w3)
   \<and> (uploadSealFile_v1 (file_system E) P (sealApiBaseUrl inputs) (sealApiToken inputs) filePath
             (sealFilename_v1 pc (c + 1) filePath) (sealFileTypeTitle inputs) w = (Inr newId, w1)
        \<and> getSealFileVersion P (sealApiBaseUrl inputs) (sealApiToken inputs) newId w1
             = (Inr None, w2)
        \<longrightarrow> uploadArtifacts_v1 E P inputs pc (filePath # rest) (refs, n, c) w =
              uploadArtifacts_v1 E P inputs pc rest
                (refs @ [\<lparr>ref_id = newId, ref_version = None\<rparr>], n, c + 1) w2)"
proof (intro conjI impI)
  show "fst (getSealFileVersion P apiUrl apiToken fileId w) =
     Inr (case P (calls w) (versionConfig apiUrl (apiHeaders apiToken []) fileId) of
            Reply r \<Rightarrow>
              if status r = 200 then
                (case responseVersion (resp_data r) of
                   VersionUndefined \<Rightarrow> None
                 | VersionNull \<Rightarrow> None
                 | VersionNumber v \<Rightarrow> Some v
                 | VersionOther \<Rightarrow> None)
              else None
          | TransportFailure m \<Rightarrow> None
          | OtherFailure m \<Rightarrow> None)"
    using assms
    by (auto simp: getSealFileVersion_def createApiConfig_def axios_def Let_def validateStatus_def
        split: reply.splits js_version.splits)
next
  assume "uploadSealFile (file_system E) P (sealApiBaseUrl inputs) (sealApiToken inputs) filePath
             (sealFilename pc t filePath) (sealFileTypeTitle inputs) w = (Inr newId, w1)
        \<or> uploadSealFile_v1 (file_system E) P (sealApiBaseUrl inputs) (sealApiToken inputs)
             filePath (sealFilename_v1 pc (c + 1) filePath) (sealFileTypeTitle inputs) w
             = (Inr newId, w1)"
  then have "sealApiToken inputs \<noteq> []"
    using uploadSealFile_needs_token uploadSealFile_v1_needs_token by blast
  then show "\<exists>v. fst (getSealFileVersion P (sealApiBaseUrl inputs) (sealApiToken inputs)
                        newId w') = Inr v"
    by (rule getSealFileVersion_total)
next
  assume "uploadSealFile (file_system E) P (sealApiBaseUrl inputs) (sealApiToken inputs) filePath
             (sealFilename pc t filePath) (sealFileTypeTitle inputs) w = (Inr newId, w1)
        \<and> addEntityToChangeSet P (sealApiBaseUrl inputs) (sealApiToken inputs) newId idx w1
             = (Inr (), w2)
        \<and> getSealFileVersion P (sealApiBaseUrl inputs) (sealApiToken inputs) newId w2
             = (Inr None, w3)"
  then have "processArtifact E P inputs pc idx t filePath w
      = (Inr \<lparr>ref_id = newId, ref_version = None\<rparr>, w3)"
    by (simp add: processArtifact_def bindS_def)
  then show "processArtifacts E P inputs pc idx t (filePath # rest) (refs, n) w =
              processArtifacts E P inputs pc idx t rest
                (refs @ [\<lparr>ref_id = newId, ref_version = None\<rparr>], n) w3"
    by simp
next
  assume "uploadSealFile_v1 (file_system E) P (sealApiBaseUrl inputs) (sealApiToken inputs) filePath
             (sealFilename_v1 pc (c + 1) filePath) (sealFileTypeTitle inputs) w = (Inr newId, w1)
        \<and> getSealFileVersion P (sealApiBaseUrl inputs) (sealApiToken inputs) newId w1
             = (Inr None, w2)"
  then have "uploadArtifact_v1 E P inputs pc (c + 1) filePath w
      = (Inr \<lparr>ref_id = newId, ref_version = None\<rparr>, w2)"
    by (simp add: uploadArtifact_v1_def bindS_def)
  then show "uploadArtifacts_v1 E P inputs pc (filePath # rest) (refs, n, c) w =
              uploadArtifacts_v1 E P inputs pc rest
                (refs @ [\<lparr>ref_id = newId, ref_version = None\<rparr>], n, c + 1) w2"
    by simp
qed

theorem getSealFileVersion_never_raises_witness:
  "''tok'' \<noteq> []
   \<and> fst (getSealFileVersion (demo_platform 404 200) ''https://seal/api/'' ''tok'' ''f2'' world0)
       = Inr None
   \<and> fst (processArtifacts (demo_env demo_vars ''pull_request'' readable [''/ws/report.xml''])
            (demo_platform 404 200) demo_inputs demo_pr ''CS-1'' 1700 [''/ws/report.xml'']
            ([], 0) world0)
       = ([\<lparr>ref_id = ''f2'', ref_version = None\<rparr>], 0)"
proof -
  let ?E = "demo_env demo_vars ''pull_request'' readable [''/ws/report.xml'']"
  let ?P = "demo_platform 404 200"
  have tok: "''tok'' \<noteq> []" by simp
  have v: "fst (getSealFileVersion ?P ''https://seal/api/'' ''tok'' fid w) = Inr None"
    if "fid = ''f2''" for fid w
    using getSealFileVersion_never_raises [OF tok, where P = ?P
        and apiUrl = "''https://seal/api/''" and fileId = fid and w = w] that
    by (simp add: demo_version_404 ok_response_def)
  obtain w1 where u: "uploadSealFile (file_system ?E) ?P (sealApiBaseUrl demo_inputs)
      (sealApiToken demo_inputs) ''/ws/report.xml'' (sealFilename demo_pr 1700 ''/ws/report.xml'')
      (sealFileTypeTitle demo_inputs) world0 = (Inr ''f2'', w1)"
    using demo_upload [of 404 200 "''/ws/report.xml''" "sealFilename demo_pr 1700 ''/ws/report.xml''" world0]
    by (cases "uploadSealFile readable ?P ''https://seal/api/'' ''tok'' ''/ws/report.xml''
         (sealFilename demo_pr 1700 ''/ws/report.xml'') ''GitHub-Artifacts'' world0")
       (simp add: demo_env_def demo_inputs_def)
  obtain w2 where a: "addEntityToChangeSet ?P (sealApiBaseUrl demo_inputs)
      (sealApiToken demo_inputs) ''f2'' ''CS-1'' w1 = (Inr (), w2)"
    using demo_add [of 404 200 "''f2''" "''CS-1''" w1]
    by (cases "addEntityToChangeSet ?P ''https://seal/api/'' ''tok'' ''f2'' ''CS-1'' w1")
       (simp add: demo_inputs_def)
  obtain w3 where g: "getSealFileVersion ?P (sealApiBaseUrl demo_inputs)
      (sealApiToken demo_inputs) ''f2'' w2 = (Inr None, w3)"
    using v [of "''f2''" w2]
    by (cases "getSealFileVersion ?P ''https://seal/api/'' ''tok'' ''f2'' w2")
       (simp add: demo_inputs_def)
  from getSealFileVersion_never_raises [OF tok, where P = ?P and E = ?E and inputs = demo_inputs
      and filePath = "''/ws/report.xml''" and pc = demo_pr and t = 1700 and newId = "''f2''"
      and w = world0 and ?w1.0 = w1 and idx = "''CS-1''" and ?w2.0 = w2 and ?w3.0 = w3
      and rest = "[]" and refs = "[]" and n = 0]
    u a g
  have "processArtifacts ?E ?P demo_inputs demo_pr ''CS-1'' 1700 [''/ws/report.xml''] ([], 0) world0
      = (([\<lparr>ref_id = ''f2'', ref_version = None\<rparr>], 0), w3)"
    by simp
  then show ?thesis using v [of "''f2''" world0] by simp
qed

section \<open>Archiving and the field patch\<close>

text \<open>
  C7. \<open>archiveEntities\<close> never raises, for any list of earlier references (or none).
  Every reference gets an outcome of its own: as many results are settled as there are
  references, and the results of a list are the results of its front followed by those
  of its back, each taken in the world the one before left. With a token every result is
  a fulfilled outcome (skipped for a reference without an id, success under status 200,
  failed otherwise), and every reference that has an id gets its archive request,
  whatever the platform answered to the others. Once references were collected, the run
  goes on to the field patch in the world archiving left, and with a token the PATCH
  request is the last request it sends.
\<close>

theorem archiveEntities_never_raises_and_run_proceeds:
  "fst (archiveEntities P apiUrl apiToken fileRefs w) = Inr ()
   \<and> length (fst (archivePromises P apiUrl apiToken refs w)) = length refs
   \<and> archivePromises P apiUrl apiToken (earlier @ later) w =
       (case archivePromises P apiUrl apiToken earlier w of
          (a, w1) \<Rightarrow>
            (case archivePromises P apiUrl apiToken later w1 of (b, w2) \<Rightarrow> (a @ b, w2)))
   \<and> (uploadedFileRefs \<noteq> [] \<longrightarrow>
        run_link P inputs entity uploadedFileRefs n w =
          linkFilesToEntityField P (sealApiBaseUrl inputs) (sealApiToken inputs)
            (entity_id entity) (fieldName inputs) uploadedFileRefs
            (snd (archiveEntities P (sealApiBaseUrl inputs) (sealApiToken inputs)
                    (existingRefs entity (fieldName inputs)) w)))
   \<and> (apiToken \<noteq> [] \<longrightarrow>
        fst (archivePromise P (normalizeApiUrl apiUrl) apiToken r w) =
          Inr (if ref_id r = [] then ArchiveSkipped
               else
                 case P (calls w) (archiveConfig (normalizeApiUrl apiUrl) (apiHeaders apiToken [])
                                     (ref_id r)) of
                   Reply resp \<Rightarrow>
                     if status resp = 200 then ArchiveSuccess (ref_id r)
                     else if validateStatus (status resp) then
                       ArchiveFailed (ref_id r) (''Status '' @ show_nat (status resp))
                     else
                       ArchiveFailed (ref_id r)
                         (''Request failed with status code '' @ show_nat (status resp))
                 | TransportFailure m \<Rightarrow> ArchiveFailed (ref_id r) m
                 | OtherFailure m \<Rightarrow> ArchiveFailed (ref_id r) m)
        \<and> (\<forall>s \<in> set (fst (archivePromises P apiUrl apiToken refs w)). \<exists>out. s = Inr out)
        \<and> calls (snd (archiveEntities P apiUrl apiToken (Some refs) w)) =
            calls w @ map (\<lambda>r. archiveConfig (normalizeApiUrl apiUrl) (apiHeaders apiToken [])
                                  (ref_id r))
                        (filter (\<lambda>r. ref_id r \<noteq> []) refs))
   \<and> (uploadedFileRefs \<noteq> [] \<and> sealApiToken inputs \<noteq> [] \<longrightarrow>
        last (calls (snd (run_link P inputs entity uploadedFileRefs n w))) =
          linkConfig (sealApiBaseUrl inputs) (apiHeaders (sealApiToken inputs) [])
            (entity_id entity) (fieldName inputs) uploadedFileRefs)"
proof (intro conjI impI ballI)
  show "fst (archiveEntities P apiUrl apiToken fileRefs w) = Inr ()"
    by (rule archiveEntities_never_raises)
  show "length (fst (archivePromises P apiUrl apiToken refs w)) = length refs"
    by (simp add: archivePromises_def allSettled_length)
  show "archivePromises P apiUrl apiToken (earlier @ later) w =
       (case archivePromises P apiUrl apiToken earlier w of
          (a, w1) \<Rightarrow>
            (case archivePromises P apiUrl apiToken later w1 of (b, w2) \<Rightarrow> (a @ b, w2)))"
    by (simp add: archivePromises_def allSettled_append)
next
  assume "uploadedFileRefs \<noteq> []"
  then show "run_link P inputs entity uploadedFileRefs n w =
          linkFilesToEntityField P (sealApiBaseUrl inputs) (sealApiToken inputs)
            (entity_id entity) (fieldName inputs) uploadedFileRefs
            (snd (archiveEntities P (sealApiBaseUrl inputs) (sealApiToken inputs)
                    (existingRefs entity (fieldName inputs)) w))"
    by (rule run_link_proceeds)
next
  assume tok: "apiToken \<noteq> []"
  show "fst (archivePromise P (normalizeApiUrl apiUrl) apiToken r w) =
          Inr (if ref_id r = [] then ArchiveSkipped
               else
                 case P (calls w) (archiveConfig (normalizeApiUrl apiUrl) (apiHeaders apiToken [])
                                     (ref_id r)) of
                   Reply resp \<Rightarrow>
                     if status resp = 200 then ArchiveSuccess (ref_id r)
                     else if validateStatus (status resp) then
                       ArchiveFailed (ref_id r) (''Status '' @ show_nat (status resp))
                     else
                       ArchiveFailed (ref_id r)
                         (''Request failed with status code '' @ show_nat (status resp))
                 | TransportFailure m \<Rightarrow> ArchiveFailed (ref_id r) m
                 | OtherFailure m \<Rightarrow> ArchiveFailed (ref_id r) m)"
    by (rule archivePromise_outcome [OF tok])
  show "calls (snd (archiveEntities P apiUrl apiToken (Some refs) w)) =
            calls w @ map (\<lambda>r. archiveConfig (normalizeApiUrl apiUrl) (apiHeaders apiToken [])
                                  (ref_id r))
                        (filter (\<lambda>r. ref_id r \<noteq> []) refs)"
    using archiveEntities_calls [OF tok, of P apiUrl "Some refs" w] by simp
  fix s
  assume "s \<in> set (fst (archivePromises P apiUrl apiToken refs w))"
  then show "\<exists>out. s = Inr out"
    using allSettled_archive_fulfilled [OF tok, of s P "normalizeApiUrl apiUrl" refs w]
    by (simp add: archivePromises_def)
next
  assume "uploadedFileRefs \<noteq> [] \<and> sealApiToken inputs \<noteq> []"
  then show "last (calls (snd (run_link P inputs entity uploadedFileRefs n w))) =
          linkConfig (sealApiBaseUrl inputs) (apiHeaders (sealApiToken inputs) [])
            (entity_id entity) (fieldName inputs) uploadedFileRefs"
    by (simp add: run_link_calls)
qed

theorem archiveEntities_never_raises_and_run_proceeds_witness:
  "''tok'' \<noteq> []
   \<and> fst (archiveEntities (demo_platform 200 500) ''https://seal/api/'' ''tok''
        (Some [\<lparr>ref_id = ''f1'', ref_version = Some 1\<rparr>, \<lparr>ref_id = [], ref_version = None\<rparr>,
               \<lparr>ref_id = ''f3'', ref_version = None\<rparr>]) world0) = Inr ()
   \<and> calls (snd (archiveEntities (demo_platform 200 500) ''https://seal/api/'' ''tok''
        (Some [\<lparr>ref_id = ''f1'', ref_version = Some 1\<rparr>, \<lparr>ref_id = [], ref_version = None\<rparr>,
               \<lparr>ref_id = ''f3'', ref_version = None\<rparr>]) world0))
       = [archiveConfig ''https://seal/api/'' (apiHeaders ''tok'' []) ''f1'',
          archiveConfig ''https://seal/api/'' (apiHeaders ''tok'' []) ''f3'']
   \<and> last (calls (snd (run_link (demo_platform 200 500) demo_inputs
        (demo_entity ''ent-1'' ''T1'' [\<lparr>ref_id = ''f1'', ref_version = Some 1\<rparr>])
        [\<lparr>ref_id = ''f2'', ref_version = Some 3\<rparr>] 0 world0)))
       = linkConfig ''https://seal/api/'' (apiHeaders ''tok'' []) ''ent-1'' ''Release Artifact(s)''
           [\<lparr>ref_id = ''f2'', ref_version = Some 3\<rparr>]"
proof -
  let ?P = "demo_platform 200 500"
  let ?refs = "[\<lparr>ref_id = ''f1'', ref_version = Some 1\<rparr>, \<lparr>ref_id = [], ref_version = None\<rparr>,
               \<lparr>ref_id = ''f3'', ref_version = None\<rparr>]"
  let ?ent = "demo_entity ''ent-1'' ''T1'' [\<lparr>ref_id = ''f1'', ref_version = Some 1\<rparr>]"
  let ?new = "[\<lparr>ref_id = ''f2'', ref_version = Some 3\<rparr>]"
  note main = archiveEntities_never_raises_and_run_proceeds
      [where P = ?P and apiUrl = "''https://seal/api/''" and apiToken = "''tok''"
         and fileRefs = "Some ?refs" and refs = ?refs and w = world0
         and inputs = demo_inputs and entity = ?ent and uploadedFileRefs = ?new and n = 0]
  have tok: "''tok'' \<noteq> []" by simp
  have h: "?new \<noteq> [] \<and> sealApiToken demo_inputs \<noteq> []" by (simp add: demo_inputs_def)
  from main have 1: "fst (archiveEntities ?P ''https://seal/api/'' ''tok'' (Some ?refs) world0) = Inr ()"
    by blast
  from main tok have "calls (snd (archiveEntities ?P ''https://seal/api/'' ''tok'' (Some ?refs) world0)) =
            calls world0 @ map (\<lambda>r. archiveConfig (normalizeApiUrl ''https://seal/api/'') (apiHeaders ''tok'' [])
                                  (ref_id r))
                        (filter (\<lambda>r. ref_id r \<noteq> []) ?refs)"
    by blast
  then have 2: "calls (snd (archiveEntities ?P ''https://seal/api/'' ''tok'' (Some ?refs) world0))
       = [archiveConfig ''https://seal/api/'' (apiHeaders ''tok'' []) ''f1'',
          archiveConfig ''https://seal/api/'' (apiHeaders ''tok'' []) ''f3'']"
    by (simp add: demo_base_url world0_def)
  from main h have "last (calls (snd (run_link ?P demo_inputs ?ent ?new 0 world0))) =
          linkConfig (sealApiBaseUrl demo_inputs) (apiHeaders (sealApiToken demo_inputs) [])
            (entity_id ?ent) (fieldName demo_inputs) ?new"
    by blast
  then have 3: "last (calls (snd (run_link ?P demo_inputs ?ent ?new 0 world0)))
       = linkConfig ''https://seal/api/'' (apiHeaders ''tok'' []) ''ent-1'' ''Release Artifact(s)'' ?new"
    by (simp add: demo_inputs_def demo_entity_def)
  from tok 1 2 3 show ?thesis by blast
qed

text \<open>
  C2. In the linking step of a run that collected references (with a token),
  \<open>archiveEntities\<close> is invoked on the value the field held and the field is patched in
  the world it left. The requests sent are the archive requests for the references the
  field held (those with an id), in their order, and then one PATCH whose body is exactly
  the collected references: nothing of the earlier value is merged into it. For an earlier value \<open>[A]\<close> and collected
  references \<open>[B, C]\<close> the requests are the archive request for \<open>A\<close>, then the PATCH with
  body \<open>[B, C]\<close>.
\<close>

theorem run_link_replaces_field:
  assumes "uploadedFileRefs \<noteq> []" and "sealApiToken inputs \<noteq> []"
  shows "run_link P inputs entity uploadedFileRefs n w =
           linkFilesToEntityField P (sealApiBaseUrl inputs) (sealApiToken inputs)
             (entity_id entity) (fieldName inputs) uploadedFileRefs
             (snd (archiveEntities P (sealApiBaseUrl inputs) (sealApiToken inputs)
                     (existingRefs entity (fieldName inputs)) w))
     \<and> calls (snd (run_link P inputs entity uploadedFileRefs n w)) =
           calls w
           @ map (\<lambda>r. archiveConfig (normalizeApiUrl (sealApiBaseUrl inputs))
                         (apiHeaders (sealApiToken inputs) []) (ref_id r))
               (filter (\<lambda>r. ref_id r \<noteq> [])
                  (case existingRefs entity (fieldName inputs) of
                     None \<Rightarrow> [] | Some prior \<Rightarrow> prior))
           @ [linkConfig (sealApiBaseUrl inputs) (apiHeaders (sealApiToken inputs) [])
                (entity_id entity) (fieldName inputs) uploadedFileRefs]
     \<and> req_method (linkConfig (sealApiBaseUrl inputs) (apiHeaders (sealApiToken inputs) [])
                (entity_id entity) (fieldName inputs) uploadedFileRefs) = PATCH
     \<and> req_data (linkConfig (sealApiBaseUrl inputs) (apiHeaders (sealApiToken inputs) [])
                (entity_id entity) (fieldName inputs) uploadedFileRefs)
         = FieldPatch uploadedFileRefs
     \<and> (existingRefs entity (fieldName inputs) = Some [A] \<and> ref_id A \<noteq> []
          \<and> uploadedFileRefs = [B, C] \<longrightarrow>
         calls (snd (run_link P inputs entity uploadedFileRefs n w)) =
           calls w
           @ [archiveConfig (normalizeApiUrl (sealApiBaseUrl inputs))
                (apiHeaders (sealApiToken inputs) []) (ref_id A),
              linkConfig (sealApiBaseUrl inputs) (apiHeaders (sealApiToken inputs) [])
                (entity_id entity) (fieldName inputs) [B, C]])"
proof -
  note tr = run_link_calls [OF assms, of P entity n w]
  note pr = run_link_proceeds [OF assms(1), of P inputs entity n w]
  have "req_method (linkConfig (sealApiBaseUrl inputs) (apiHeaders (sealApiToken inputs) [])
                (entity_id entity) (fieldName inputs) uploadedFileRefs) = PATCH"
    and "req_data (linkConfig (sealApiBaseUrl inputs) (apiHeaders (sealApiToken inputs) [])
                (entity_id entity) (fieldName inputs) uploadedFileRefs)
         = FieldPatch uploadedFileRefs"
    by (simp_all add: linkConfig_def)
  moreover have "existingRefs entity (fieldName inputs) = Some [A] \<and> ref_id A \<noteq> []
          \<and> uploadedFileRefs = [B, C] \<longrightarrow>
         calls (snd (run_link P inputs entity uploadedFileRefs n w)) =
           calls w
           @ [archiveConfig (normalizeApiUrl (sealApiBaseUrl inputs))
                (apiHeaders (sealApiToken inputs) []) (ref_id A),
              linkConfig (sealApiBaseUrl inputs) (apiHeaders (sealApiToken inputs) [])
                (entity_id entity) (fieldName inputs) [B, C]]"
    using tr by auto
  ultimately show ?thesis using tr pr by blast
qed

theorem run_link_replaces_field_witness:
  "[\<lparr>ref_id = ''f2'', ref_version = Some 3\<rparr>, \<lparr>ref_id = ''f4'', ref_version = None\<rparr>] \<noteq> []
   \<and> sealApiToken demo_inputs \<noteq> []
   \<and> calls (snd (run_link (demo_platform 200 500) demo_inputs
        (demo_entity ''ent-1'' ''T1'' [\<lparr>ref_id = ''f1'', ref_version = Some 1\<rparr>])
        [\<lparr>ref_id = ''f2'', ref_version = Some 3\<rparr>, \<lparr>ref_id = ''f4'', ref_version = None\<rparr>]
        0 world0))
       = [archiveConfig ''https://seal/api/'' (apiHeaders ''tok'' []) ''f1'',
          linkConfig ''https://seal/api/'' (apiHeaders ''tok'' []) ''ent-1'' ''Release Artifact(s)''
            [\<lparr>ref_id = ''f2'', ref_version = Some 3\<rparr>, \<lparr>ref_id = ''f4'', ref_version = None\<rparr>]]
   \<and> req_data (last (calls (snd (run_link (demo_platform 200 500) demo_inputs
        (demo_entity ''ent-1'' ''T1'' [\<lparr>ref_id = ''f1'', ref_version = Some 1\<rparr>])
        [\<lparr>ref_id = ''f2'', ref_version = Some 3\<rparr>, \<lparr>ref_id = ''f4'', ref_version = None\<rparr>]
        0 world0))))
       = FieldPatch [\<lparr>ref_id = ''f2'', ref_version = Some 3\<rparr>, \<lparr>ref_id = ''f4'', ref_version = None\<rparr>]"
proof -
  let ?P = "demo_platform 200 500"
  let ?A = "\<lparr>ref_id = ''f1'', ref_version = Some 1\<rparr>"
  let ?ent = "demo_entity ''ent-1'' ''T1'' [?A]"
  let ?new = "[\<lparr>ref_id = ''f2'', ref_version = Some 3\<rparr>, \<lparr>ref_id = ''f4'', ref_version = None\<rparr>]"
  have h1: "?new \<noteq> []" by simp
  have h2: "sealApiToken demo_inputs \<noteq> []" by (simp add: demo_inputs_def)
  note main = run_link_replaces_field [OF h1 h2, where P = ?P and entity = ?ent and n = 0
      and w = world0 and A = ?A and B = "\<lparr>ref_id = ''f2'', ref_version = Some 3\<rparr>"
      and C = "\<lparr>ref_id = ''f4'', ref_version = None\<rparr>"]
  have ex: "existingRefs ?ent (fieldName demo_inputs) = Some [?A] \<and> ref_id ?A \<noteq> [] \<and> ?new = ?new"
    by (simp add: demo_existing)
  from main ex have "calls (snd (run_link ?P demo_inputs ?ent ?new 0 world0)) =
           calls world0
           @ [archiveConfig (normalizeApiUrl (sealApiBaseUrl demo_inputs))
                (apiHeaders (sealApiToken demo_inputs) []) (ref_id ?A),
              linkConfig (sealApiBaseUrl demo_inputs) (apiHeaders (sealApiToken demo_inputs) [])
                (entity_id ?ent) (fieldName demo_inputs) ?new]"
    by blast
  then have c: "calls (snd (run_link ?P demo_inputs ?ent ?new 0 world0))
       = [archiveConfig ''https://seal/api/'' (apiHeaders ''tok'' []) ''f1'',
          linkConfig ''https://seal/api/'' (apiHeaders ''tok'' []) ''ent-1'' ''Release Artifact(s)'' ?new]"
    by (simp add: demo_inputs_def demo_entity_def demo_base_url world0_def)
  have "req_data (last (calls (snd (run_link ?P demo_inputs ?ent ?new 0 world0)))) = FieldPatch ?new"
    unfolding c by (simp add: linkConfig_def)
  with h1 h2 c show ?thesis by blast
qed

section \<open>What the resolver says about several matches\<close>

lemma str_includes_empty: "str_includes s []"
  by (cases s) simp_all

lemma str_includes_prefix: "str_includes (t @ ys) t"
proof (cases "t @ ys")
  case Nil
  then show ?thesis by simp
next
  case (Cons a list)
  have "take (length t) (t @ ys) = t" by simp
  with Cons show ?thesis by simp
qed

lemma str_includes_append: "str_includes (xs @ t @ ys) t"
proof (induction xs)
  case Nil
  show ?case by (simp add: str_includes_prefix)
next
  case (Cons x xs)
  then show ?case by simp
qed

lemma join_member:
  "x \<in> set xs \<Longrightarrow> \<exists>pre post. join sep xs = pre @ x @ post"
proof (induction sep xs rule: join.induct)
  case (1 sep)
  then show ?case by simp
next
  case (2 sep y)
  then have "join sep [y] = [] @ x @ []" by simp
  then show ?case by blast
next
  case (3 sep y z zs)
  show ?case
  proof (cases "x = y")
    case True
    then have "join sep (y # z # zs) = [] @ x @ (sep @ join sep (z # zs))" by simp
    then show ?thesis by blast
  next
    case False
    with 3 obtain pre post where "join sep (z # zs) = pre @ x @ post" by auto
    then have "join sep (y # z # zs) = (y @ sep @ pre) @ x @ post" by simp
    then show ?thesis by blast
  qed
qed

lemma str_includes_join:
  assumes "x \<in> set xs"
  shows "str_includes (a @ join sep xs @ b) x"
proof -
  from join_member [OF assms] obtain pre post where "join sep xs = pre @ x @ post" by blast
  then have "a @ join sep xs @ b = (a @ pre) @ x @ (post @ b)" by simp
  then show ?thesis using str_includes_append [of "a @ pre" x "post @ b"] by simp
qed

lemma searchEntities_log:
  assumes "templateId \<noteq> []" and "apiToken \<noteq> []"
    and "axios P (searchConfig apiUrl (apiHeaders apiToken []) (''#'' @ show_nat pr)) w
           = (Inr response, w1)"
    and "status response = 200" and "resp_data response = EntityArray searchResults"
    and "length (filter (\<lambda>e. entityTemplateId e = Some templateId) searchResults) \<ge> 2"
  shows "searchEntities functionName P apiUrl apiToken pr templateId w =
         (Inl (MultipleEntitiesFound (''#'' @ show_nat pr) templateId),
          core_error ((''['' @ functionName @ ''] '') @ ''Found multiple entities (''
              @ join '', '' (map entity_id (filter (\<lambda>e. entityTemplateId e = Some templateId) searchResults))
              @ '') matching criteria. Cannot proceed.'') w1)"
proof -
  from assms(6) have "filter (\<lambda>e. entityTemplateId e = Some templateId) searchResults \<noteq> []"
    by auto
  with searchEntities_on_results [OF assms(1-5), of functionName] assms(6)
  show ?thesis by (simp add: Let_def)
qed

text \<open>
  C9, as the code has it. When the search yields two or more entities of the given
  template, the error the resolver raises (\<open>findSealEntity\<close> and \<open>findSealEntityId\<close>
  alike) carries the search term and the template id in its message and nothing else; the
  ids of the conflicting entities are written, joined by commas, to the error log just
  before the error is raised, so the last line of the error log contains each of them.
\<close>

theorem several_matches_error_names_no_ids:
  assumes "templateId \<noteq> []" and "apiToken \<noteq> []"
    and "axios P (searchConfig apiUrl (apiHeaders apiToken []) (''#'' @ show_nat pr)) w
           = (Inr response, w1)"
    and "status response = 200" and "resp_data response = EntityArray searchResults"
    and "length (filter (\<lambda>e. entityTemplateId e = Some templateId) searchResults) \<ge> 2"
  shows "fst (findSealEntity P apiUrl apiToken pr templateId w)
           = Inl (MultipleEntitiesFound (''#'' @ show_nat pr) templateId)
       \<and> fst (findSealEntityId P apiUrl apiToken pr templateId w)
           = Inl (MultipleEntitiesFound (''#'' @ show_nat pr) templateId)
       \<and> message (MultipleEntitiesFound (''#'' @ show_nat pr) templateId)
           = ''Found multiple entities matching title '' @ quoted (''#'' @ show_nat pr)
               @ '' and template ID '' @ quoted templateId @ ''. Cannot link artifact/snapshot.''
       \<and> error_log (snd (findSealEntity P apiUrl apiToken pr templateId w))
           = error_log w
             @ [''[findSealEntity] Found multiple entities (''
                 @ join '', '' (map entity_id
                      (filter (\<lambda>e. entityTemplateId e = Some templateId) searchResults))
                 @ '') matching criteria. Cannot proceed.'']
       \<and> (\<forall>e \<in> set (filter (\<lambda>e. entityTemplateId e = Some templateId) searchResults).
            str_includes (last (error_log (snd (findSealEntity P apiUrl apiToken pr templateId w))))
              (entity_id e))"
proof -
  let ?m = "filter (\<lambda>e. entityTemplateId e = Some templateId) searchResults"
  let ?line = "''[findSealEntity] Found multiple entities ('' @ join '', '' (map entity_id ?m)
                 @ '') matching criteria. Cannot proceed.''"
  have w1: "error_log w1 = error_log w"
    using axios_error_log [of P "searchConfig apiUrl (apiHeaders apiToken []) (''#'' @ show_nat pr)" w]
      assms(3) by simp
  have r: "findSealEntity P apiUrl apiToken pr templateId w =
      (Inl (MultipleEntitiesFound (''#'' @ show_nat pr) templateId), core_error ?line w1)"
    by (simp add: findSealEntity_def searchEntities_log [OF assms])
  have rid: "fst (findSealEntityId P apiUrl apiToken pr templateId w) =
      Inl (MultipleEntitiesFound (''#'' @ show_nat pr) templateId)"
    by (simp add: findSealEntityId_def searchEntities_log [OF assms])
  have lg: "error_log (snd (findSealEntity P apiUrl apiToken pr templateId w)) = error_log w @ [?line]"
    by (simp add: r core_error_def w1)
  have inc: "str_includes ?line (entity_id e)" if "e \<in> set ?m" for e
  proof -
    from that have "entity_id e \<in> set (map entity_id ?m)" by simp
    from str_includes_join [OF this, of "''[findSealEntity] Found multiple entities (''" "'', ''"
        "'') matching criteria. Cannot proceed.''"]
    show ?thesis by simp
  qed
  show ?thesis using r rid lg inc by simp
qed

theorem several_matches_error_names_no_ids_witness:
  "''T1'' \<noteq> [] \<and> ''tok'' \<noteq> []
   \<and> length (filter (\<lambda>e. entityTemplateId e = Some ''T1'')
        [demo_entity ''ent-A'' ''T1'' [], demo_entity ''ent-B'' ''T1'' []]) \<ge> 2
   \<and> fst (findSealEntity (search_platform [demo_entity ''ent-A'' ''T1'' [], demo_entity ''ent-B'' ''T1'' []])
        ''https://seal/api'' ''tok'' 7 ''T1'' world0) = Inl (MultipleEntitiesFound ''#7'' ''T1'')
   \<and> error_log (snd (findSealEntity
        (search_platform [demo_entity ''ent-A'' ''T1'' [], demo_entity ''ent-B'' ''T1'' []])
        ''https://seal/api'' ''tok'' 7 ''T1'' world0))
       = [''[findSealEntity] Found multiple entities (ent-A, ent-B) matching criteria. Cannot proceed.'']"
proof -
  let ?rs = "[demo_entity ''ent-A'' ''T1'' [], demo_entity ''ent-B'' ''T1'' []]"
  have t: "''T1'' \<noteq> []" "''tok'' \<noteq> []" by simp_all
  have ax: "axios (search_platform ?rs)
      (searchConfig ''https://seal/api'' (apiHeaders ''tok'' []) (''#'' @ show_nat 7)) world0
      = (Inr (ok_response (EntityArray ?rs)),
         world0\<lparr>calls := calls world0 @ [searchConfig ''https://seal/api'' (apiHeaders ''tok'' [])
            (''#'' @ show_nat 7)]\<rparr>)"
    by (rule search_platform_axios)
  have st: "status (ok_response (EntityArray ?rs)) = 200"
    "resp_data (ok_response (EntityArray ?rs)) = EntityArray ?rs"
    by (simp_all add: ok_response_def)
  have m: "filter (\<lambda>e. entityTemplateId e = Some ''T1'') ?rs = ?rs"
    by (simp add: demo_entity_template)
  have two: "length (filter (\<lambda>e. entityTemplateId e = Some ''T1'') ?rs) \<ge> 2"
    unfolding m by simp
  note main = several_matches_error_names_no_ids [OF t ax st two]
  from main have 1: "fst (findSealEntity (search_platform ?rs) ''https://seal/api'' ''tok'' 7 ''T1'' world0)
      = Inl (MultipleEntitiesFound ''#7'' ''T1'')"
    by (simp add: show_nat_7)
  from main have "error_log (snd (findSealEntity (search_platform ?rs) ''https://seal/api'' ''tok'' 7 ''T1'' world0))
      = error_log world0 @ [''[findSealEntity] Found multiple entities (''
                 @ join '', '' (map entity_id (filter (\<lambda>e. entityTemplateId e = Some ''T1'') ?rs))
                 @ '') matching criteria. Cannot proceed.'']"
    by blast
  then have 2: "error_log (snd (findSealEntity (search_platform ?rs) ''https://seal/api'' ''tok'' 7 ''T1'' world0))
      = [''[findSealEntity] Found multiple entities (ent-A, ent-B) matching criteria. Cannot proceed.'']"
    unfolding m by (simp add: world0_def demo_entity_def)
  from t two 1 2 show ?thesis by blast
qed

text \<open>
  C9 as stated fails: with two matching entities \<open>ent-A\<close> and \<open>ent-B\<close> the message of
  the raised error contains neither id.
\<close>

theorem several_matches_message_counterexample:
  "fst (findSealEntity (search_platform [demo_entity ''ent-A'' ''T1'' [], demo_entity ''ent-B'' ''T1'' []])
        ''https://seal/api'' ''tok'' 7 ''T1'' world0) = Inl (MultipleEntitiesFound ''#7'' ''T1'')
   \<and> \<not> str_includes (message (MultipleEntitiesFound ''#7'' ''T1'')) ''ent-A''
   \<and> \<not> str_includes (message (MultipleEntitiesFound ''#7'' ''T1'')) ''ent-B''"
proof -
  let ?rs = "[demo_entity ''ent-A'' ''T1'' [], demo_entity ''ent-B'' ''T1'' []]"
  have se: "searchEntities ''findSealEntity'' (search_platform ?rs) ''https://seal/api'' ''tok'' 7 ''T1'' world0
      = (Inl (MultipleEntitiesFound ''#7'' ''T1''),
         snd (searchEntities ''findSealEntity'' (search_platform ?rs) ''https://seal/api'' ''tok'' 7 ''T1'' world0))"
    by (simp add: searchEntities_def createApiConfig_def search_platform_axios ok_response_def
        matchingEntities_def demo_entity_template show_nat_7 Let_def)
  have 1: "fst (findSealEntity (search_platform ?rs) ''https://seal/api'' ''tok'' 7 ''T1'' world0)
      = Inl (MultipleEntitiesFound ''#7'' ''T1'')"
    by (subst findSealEntity_def, subst se) simp
  have 2: "\<not> str_includes (message (MultipleEntitiesFound ''#7'' ''T1'')) ''ent-A''"
    by (simp add: quoted_def)
  have 3: "\<not> str_includes (message (MultipleEntitiesFound ''#7'' ''T1'')) ''ent-B''"
    by (simp add: quoted_def)
  from 1 2 3 show ?thesis by blast
qed

section \<open>Runs without a pull-request context\<close>

text \<open>
  C8, as the code has it. Both actions read their inputs first and look for the
  pull-request context second. Without a pull-request context no action (current or
  earlier) makes any request or changes anything else the model tracks; and when the
  inputs were read without error the run returns, having done nothing.
\<close>

theorem no_pull_request_context_no_calls:
  assumes "getPullRequestContext E = None"
  shows "snd (run E P w) = w \<and> snd (run_v1 E P w) = w
       \<and> snd (run_snapshot E P w) = w \<and> snd (run_snapshot_v1 E P w) = w
       \<and> (getUploadArtifactsInputs E = Inr inputs \<longrightarrow>
            run E P w = (Returned, w) \<and> run_v1 E P w = (Returned, w))
       \<and> (getCodebaseSnapshotInputs E = Inr snapshotInputs \<longrightarrow>
            run_snapshot E P w = (Returned, w) \<and> run_snapshot_v1 E P w = (Returned, w))"
  using assms
  by (simp add: run_def run_v1_def run_snapshot_def run_snapshot_v1_def split: sum.splits)

theorem no_pull_request_context_no_calls_witness:
  "getPullRequestContext (demo_env demo_vars ''push'' readable []) = None
   \<and> getUploadArtifactsInputs (demo_env demo_vars ''push'' readable []) = Inr demo_inputs
   \<and> run (demo_env demo_vars ''push'' readable []) (demo_platform 200 200) world0
        = (Returned, world0)
   \<and> snd (run_snapshot (demo_env demo_vars ''push'' readable []) (demo_platform 200 200) world0)
        = world0"
proof -
  let ?E = "demo_env demo_vars ''push'' readable []"
  have c: "getPullRequestContext ?E = None" by (rule demo_no_context)
  have i: "getUploadArtifactsInputs ?E = Inr demo_inputs" by (rule demo_upload_inputs)
  note main = no_pull_request_context_no_calls [OF c, where P = "demo_platform 200 200"
      and w = world0 and inputs = demo_inputs]
  from main i have "run ?E (demo_platform 200 200) world0 = (Returned, world0)" by blast
  moreover from main have "snd (run_snapshot ?E (demo_platform 200 200) world0) = world0" by blast
  ultimately show ?thesis using c i by blast
qed

text \<open>
  C8 as stated fails: on a \<open>push\<close> event (no pull-request context) the snapshot action
  given \<open>archive_type = rar\<close> ends with the unsupported-type error, and the artifact
  action given no inputs ends with the required-input error, both thrown before the
  pull-request check and outside the \<open>try\<close> block.
\<close>

theorem no_pull_request_context_counterexample:
  "getPullRequestContext (demo_env ((''archive_type'', ''rar'') # demo_vars) ''push'' readable []) = None
   \<and> fst (run_snapshot (demo_env ((''archive_type'', ''rar'') # demo_vars) ''push'' readable [])
        (demo_platform 200 200) world0) = Rejected (UnsupportedArchiveType ''rar'')
   \<and> getPullRequestContext (demo_env [] ''push'' readable []) = None
   \<and> fst (run (demo_env [] ''push'' readable []) (demo_platform 200 200) world0)
        = Rejected (InputRequired ''seal_api_token'')"
proof -
  let ?V = "(''archive_type'', ''rar'') # demo_vars"
  let ?E = "demo_env ?V ''push'' readable []"
  have "getInput ?E ''seal_api_token'' True = Inr ''tok''"
    by (rule demo_getInput) (simp_all add: demo_vars_def isWhiteSpace_def)
  moreover have "getInput ?E ''seal_api_base_url'' True = Inr ''https://seal/api/''"
    by (rule demo_getInput) (simp_all add: demo_vars_def isWhiteSpace_def)
  moreover have "getInput ?E ''seal_template_id'' True = Inr ''T1''"
    by (rule demo_getInput) (simp_all add: demo_vars_def isWhiteSpace_def)
  moreover have "getInput ?E ''seal_snapshot_field_name'' False = Inr []"
    by (rule demo_getInput_missing) (simp add: demo_vars_def)
  moreover have "getInput ?E ''seal_file_type_title'' False = Inr []"
    by (rule demo_getInput_missing) (simp add: demo_vars_def)
  moreover have "getInput ?E ''exclude_patterns'' False = Inr []"
    by (rule demo_getInput_missing) (simp add: demo_vars_def)
  moreover have "getInput ?E ''archive_type'' False = Inr ''rar''"
    by (rule demo_getInput) (simp_all add: demo_vars_def isWhiteSpace_def)
  ultimately have "getCodebaseSnapshotInputs ?E = Inl (UnsupportedArchiveType ''rar'')"
    by (simp add: getCodebaseSnapshotInputs_def bindE_def orDefault_def)
  then have 1: "fst (run_snapshot ?E (demo_platform 200 200) world0)
      = Rejected (UnsupportedArchiveType ''rar'')"
    by (simp add: run_snapshot_def)
  have "getInput (demo_env [] ''push'' readable []) ''seal_api_token'' True
      = Inl (InputRequired ''seal_api_token'')"
    by (simp add: getInput_def demo_env_def)
  then have "getUploadArtifactsInputs (demo_env [] ''push'' readable [])
      = Inl (InputRequired ''seal_api_token'')"
    by (simp add: getUploadArtifactsInputs_def bindE_def)
  then have 2: "fst (run (demo_env [] ''push'' readable []) (demo_platform 200 200) world0)
      = Rejected (InputRequired ''seal_api_token'')"
    by (simp add: run_def)
  from 1 2 demo_no_context [of ?V readable "[]"] demo_no_context [of "[]" readable "[]"]
  show ?thesis by blast
qed

section \<open>When the artifact run fails and when it is a no-op\<close>

text \<open>
  C4. In a run of the current artifact action that has read its inputs, has a
  pull-request context and was given at least one pattern: when the glob step finds no
  file, the run returns and the world is as it was (no request was sent); when files
  were found, the entity and its changeset were resolved, and the per-file loop ended
  with no reference and at least one counted failure, the run reports failure with
  \<open>core.setFailed\<close>, naming the number of failed steps.
\<close>

theorem run_fails_or_is_noop:
  assumes "getUploadArtifactsInputs E = Inr inputs"
    and "getPullRequestContext E = Some pc"
    and "splitWords [] (artifactPatterns inputs) \<noteq> []"
  shows "(glob E (join [CHR 0x0A] (splitWords [] (artifactPatterns inputs))) (Some (workspace pc))
            = Inr []
          \<longrightarrow> run E P w = (Returned, w))
       \<and> (glob E (join [CHR 0x0A] (splitWords [] (artifactPatterns inputs))) (Some (workspace pc))
            = Inr foundFiles
          \<and> foundFiles \<noteq> []
          \<and> findSealEntity P (sealApiBaseUrl inputs) (sealApiToken inputs) (prNumber pc)
              (sealTemplateId inputs) w = (Inr entity, w1)
          \<and> getSealEntityChangeSetIndex P (sealApiBaseUrl inputs) (sealApiToken inputs)
              (entity_id entity) w1 = (Inr changeSetIndex, w2)
          \<and> processArtifacts E P inputs pc changeSetIndex (clock E) foundFiles ([], 0) w2
              = (([], failed), w3)
          \<and> failed > 0
          \<longrightarrow> run E P w = (SetFailed (show_nat failed @ '' artifact processing step(s) failed.''), w3))"
proof (intro conjI impI)
  assume "glob E (join [CHR 0x0A] (splitWords [] (artifactPatterns inputs))) (Some (workspace pc))
            = Inr []"
  with assms show "run E P w = (Returned, w)"
    by (simp add: run_def run_try_def Let_def)
next
  assume h: "glob E (join [CHR 0x0A] (splitWords [] (artifactPatterns inputs))) (Some (workspace pc))
            = Inr foundFiles
          \<and> foundFiles \<noteq> []
          \<and> findSealEntity P (sealApiBaseUrl inputs) (sealApiToken inputs) (prNumber pc)
              (sealTemplateId inputs) w = (Inr entity, w1)
          \<and> getSealEntityChangeSetIndex P (sealApiBaseUrl inputs) (sealApiToken inputs)
              (entity_id entity) w1 = (Inr changeSetIndex, w2)
          \<and> processArtifacts E P inputs pc changeSetIndex (clock E) foundFiles ([], 0) w2
              = (([], failed), w3)
          \<and> failed > 0"
  then have "run_try E P inputs pc w = (Inl (ProcessingFailed failed), w3)"
    using assms(3) by (simp add: run_try_def Let_def bindS_def run_link_def)
  with assms show "run E P w = (SetFailed (show_nat failed @ '' artifact processing step(s) failed.''), w3)"
    by (simp add: run_def)
qed

theorem run_fails_or_is_noop_witness:
  "getUploadArtifactsInputs (demo_env demo_vars ''pull_request'' readable []) = Inr demo_inputs
   \<and> getPullRequestContext (demo_env demo_vars ''pull_request'' readable []) = Some demo_pr
   \<and> splitWords [] (artifactPatterns demo_inputs) \<noteq> []
   \<and> run (demo_env demo_vars ''pull_request'' readable []) (demo_platform 200 200) world0
        = (Returned, world0)
   \<and> fst (processArtifacts (demo_env demo_vars ''pull_request'' unreadable [''/ws/report.xml''])
            (demo_platform 200 200) demo_inputs demo_pr ''CS-1'' 1700 [''/ws/report.xml'']
            ([], 0) world0) = ([], 1)
   \<and> fst (run (demo_env demo_vars ''pull_request'' unreadable [''/ws/report.xml''])
            (demo_platform 200 200) world0)
        = SetFailed ''1 artifact processing step(s) failed.''"
proof -
  let ?P = "demo_platform 200 200"
  let ?E1 = "demo_env demo_vars ''pull_request'' readable []"
  let ?E2 = "demo_env demo_vars ''pull_request'' unreadable [''/ws/report.xml'']"
  let ?ent = "demo_entity ''ent-1'' ''T1'' [\<lparr>ref_id = ''f1'', ref_version = Some 1\<rparr>]"
  have pats: "splitWords [] (artifactPatterns demo_inputs) \<noteq> []"
    by (simp add: demo_inputs_def isWhiteSpace_def)
  have g1: "glob ?E1 (join [CHR 0x0A] (splitWords [] (artifactPatterns demo_inputs)))
      (Some (workspace demo_pr)) = Inr []"
    by (simp add: demo_env_def)
  from run_fails_or_is_noop [OF demo_upload_inputs demo_context pats, where P = ?P and w = world0] g1
  have r1: "run ?E1 ?P world0 = (Returned, world0)" by blast
  obtain w1 where f: "findSealEntity ?P (sealApiBaseUrl demo_inputs) (sealApiToken demo_inputs)
      (prNumber demo_pr) (sealTemplateId demo_inputs) world0 = (Inr ?ent, w1)"
    using demo_find [of 200 200 world0]
    by (cases "findSealEntity ?P ''https://seal/api/'' ''tok'' 7 ''T1'' world0")
       (simp add: demo_inputs_def demo_pr_def)
  obtain w2 where c: "getSealEntityChangeSetIndex ?P (sealApiBaseUrl demo_inputs)
      (sealApiToken demo_inputs) (entity_id ?ent) w1 = (Inr ''CS-1'', w2)"
    using demo_changeset_index [of 200 200 w1]
    by (cases "getSealEntityChangeSetIndex ?P ''https://seal/api/'' ''tok'' ''ent-1'' w1")
       (simp add: demo_inputs_def demo_entity_def)
  have l: "processArtifacts ?E2 ?P demo_inputs demo_pr ''CS-1'' (clock ?E2) [''/ws/report.xml'']
      ([], 0) w2 = (([], 1), w2)"
    by (rule demo_unreadable)
  have g2: "glob ?E2 (join [CHR 0x0A] (splitWords [] (artifactPatterns demo_inputs)))
      (Some (workspace demo_pr)) = Inr [''/ws/report.xml'']"
    by (simp add: demo_env_def)
  from run_fails_or_is_noop [OF demo_upload_inputs demo_context pats, where P = ?P and w = world0
      and foundFiles = "[''/ws/report.xml'']" and entity = ?ent and ?w1.0 = w1
      and changeSetIndex = "''CS-1''" and ?w2.0 = w2 and failed = 1 and ?w3.0 = w2] g2 f c l
  have "run ?E2 ?P world0 = (SetFailed (show_nat 1 @ '' artifact processing step(s) failed.''), w2)"
    by simp
  then have r2: "fst (run ?E2 ?P world0) = SetFailed ''1 artifact processing step(s) failed.''"
    using show_nat_1 by simp
  have l0: "fst (processArtifacts ?E2 ?P demo_inputs demo_pr ''CS-1'' 1700 [''/ws/report.xml'']
            ([], 0) world0) = ([], 1)"
    by (subst demo_unreadable) simp
  from demo_upload_inputs [of "''pull_request''" readable "[]"] demo_context [of demo_vars readable "[]"]
    pats r1 l0 r2
  show ?thesis by blast
qed

section \<open>Remote file names within one run\<close>

lemma sealFilename_same_basename:
  "basename p = basename q \<Longrightarrow> sealFilename pc t p = sealFilename pc t q"
  by (simp add: sealFilename_def)

text \<open>The earlier action's names differ whenever the positions of the files differ.\<close>

lemma sealFilename_v1_distinct:
  "i \<noteq> j \<Longrightarrow> sealFilename_v1 pc i p \<noteq> sealFilename_v1 pc j q"
proof
  assume ne: "i \<noteq> j" and e: "sealFilename_v1 pc i p = sealFilename_v1 pc j q"
  let ?x = "\<lambda>f. ''artifact-'' @ basename f @ ''-pr'' @ show_nat (prNumber pc)"
  from e have "?x p @ ''-index'' @ show_nat i = ?x q @ ''-index'' @ show_nat j"
    by (simp add: sealFilename_v1_def)
  then have "takeWhile isDigit (rev (?x p @ ''-index'' @ show_nat i))
      = takeWhile isDigit (rev (?x q @ ''-index'' @ show_nat j))" by (rule arg_cong)
  then have "rev (show_nat i) = rev (show_nat j)" by (simp only: digits_of_name)
  then have "i = j" by (simp add: show_nat_inj)
  with ne show False by simp
qed

text \<open>
  C5 does not hold of the current action. Its remote name is built from the file's base
  name, the pull-request number and a timestamp taken once before the loop, so two
  distinct files with the same base name get the same remote name: in a run over
  \<open>/ws/a/README.md\<close> and \<open>/ws/b/README.md\<close> both uploads are sent under the name
  \<open>artifact-README.md-PR7-1700\<close>. The earlier action numbers the files within the
  run and gives the two files different names.
\<close>

theorem sealFilename_collides_on_equal_basenames:
  "''/ws/a/README.md'' \<noteq> ''/ws/b/README.md''
   \<and> sealFilename demo_pr 1700 ''/ws/a/README.md'' = ''artifact-README.md-PR7-1700''
   \<and> sealFilename demo_pr 1700 ''/ws/b/README.md'' = ''artifact-README.md-PR7-1700''
   \<and> map (\<lambda>r. map_of (params r) ''filename'')
       (filter (\<lambda>r. req_method r = POST \<and> params r \<noteq> [])
          (calls (snd (processArtifacts (demo_env demo_vars ''pull_request'' readable
                         [''/ws/a/README.md'', ''/ws/b/README.md''])
                       (demo_platform 200 200) demo_inputs demo_pr ''CS-1'' 1700
                       [''/ws/a/README.md'', ''/ws/b/README.md''] ([], 0) world0))))
       = [Some ''artifact-README.md-PR7-1700'', Some ''artifact-README.md-PR7-1700'']
   \<and> sealFilename_v1 demo_pr 1 ''/ws/a/README.md'' = ''artifact-README.md-pr7-index1''
   \<and> sealFilename_v1 demo_pr 2 ''/ws/b/README.md'' = ''artifact-README.md-pr7-index2''"
proof -
  have "sealFilename demo_pr 1700 ''/ws/a/README.md'' = ''artifact-README.md-PR7-1700''"
    and "sealFilename demo_pr 1700 ''/ws/b/README.md'' = ''artifact-README.md-PR7-1700''"
    and "sealFilename_v1 demo_pr 1 ''/ws/a/README.md'' = ''artifact-README.md-pr7-index1''"
    and "sealFilename_v1 demo_pr 2 ''/ws/b/README.md'' = ''artifact-README.md-pr7-index2''"
    using show_nat_1
    by (simp_all add: sealFilename_def sealFilename_v1_def basename_def demo_pr_def show_nat_7
        show_nat_1700 show_nat_2)
  moreover have "''/ws/a/README.md'' \<noteq> ''/ws/b/README.md''" by simp
  ultimately show ?thesis using two_uploads_one_name by blast
qed

end
